theory Spec2Isabelle
  imports Main "HOL-Library.Sublist" "HOL-Library.AList" "HOL-Library.Multiset"
begin

section \<open>The project template generator (templates/generate\_project.py)\<close>

text \<open>
  Python strings are modelled as \<open>string\<close> (the UTF-8 bytes of the text), the
  dictionaries \<open>FRAMEWORKS\<close> and \<open>replacements\<close> as association lists in insertion order
  (the order in which Python iterates over them), paths as lists of path components.
\<close>

subsection \<open>FrameworkConfig and the registry FRAMEWORKS\<close>

record FrameworkConfig =
  name :: string
  display_name :: string
  language :: string
  framework :: string
  package_manager :: string
  test_framework :: string
  coverage_tool :: string
  docker_image :: string
  language_version :: string
  description :: string

definition FRAMEWORKS :: "(string \<times> FrameworkConfig) list" where
  "FRAMEWORKS =
    [(''python-fastapi'',
      \<lparr>name = ''python-fastapi'',
       display_name = ''Python + FastAPI'',
       language = ''Python'',
       framework = ''FastAPI'',
       package_manager = ''Poetry'',
       test_framework = ''pytest'',
       coverage_tool = ''pytest-cov'',
       docker_image = ''python:3.11-slim'',
       language_version = ''3.11.x'',
       description = ''Modern Python web API with FastAPI, Poetry, and pytest''\<rparr>),
     (''typescript-nodejs'',
      \<lparr>name = ''typescript-nodejs'',
       display_name = ''TypeScript + Node.js + Express'',
       language = ''TypeScript'',
       framework = ''Express'',
       package_manager = ''npm/yarn'',
       test_framework = ''Jest'',
       coverage_tool = ''Istanbul'',
       docker_image = ''node:20-alpine'',
       language_version = ''5.3+'',
       description = ''TypeScript backend with Express, Jest, and ESLint''\<rparr>),
     (''python-behave'',
      \<lparr>name = ''python-behave'',
       display_name = ''Python + Behave (BDD)'',
       language = ''Python'',
       framework = ''Behave'',
       package_manager = ''Poetry'',
       test_framework = ''Behave + pytest'',
       coverage_tool = ''coverage.py'',
       docker_image = ''python:3.11-slim'',
       language_version = ''3.11.x'',
       description = ''Behavior-driven development with Behave and Python''\<rparr>)]"

subsection \<open>The configuration dictionary returned by get\_project\_config\<close>

record ProjectConfig =
  framework_config :: FrameworkConfig
  project_name :: string
  author :: string
  cfg_description :: string
  gitlab_url :: string
  coverage_threshold :: string

subsection \<open>Strings: str.replace, str.strip, str.lower, str(int)\<close>

text \<open>
  \<open>s.replace(old, new)\<close> replaces the non-overlapping occurrences of \<open>old\<close> from left
  to right. For an empty \<open>old\<close> Python inserts \<open>new\<close> before every character and at
  the end.
\<close>

function str_replace :: "string \<Rightarrow> string \<Rightarrow> string \<Rightarrow> string" where
  "str_replace s old new =
     (if old = [] then concat (map (\<lambda>c. new @ [c]) s) @ new
      else if s = [] then []
      else if prefix old s then new @ str_replace (drop (length old) s) old new
      else hd s # str_replace (tl s) old new)"
  by pat_completeness auto
termination
  by (relation "measure (\<lambda>(s, old, new). length s)") auto

declare str_replace.simps [simp del]

text \<open>
  The characters that \<open>str.isspace()\<close> accepts and \<open>str.strip()\<close> removes, each in its UTF-8
  encoding: U+0009 to U+000D, U+001C to U+001F, U+0020, U+0085, U+00A0, U+1680, U+2000 to
  U+200A, U+2028, U+2029, U+202F, U+205F and U+3000. The text is well-formed UTF-8, so that
  the bytes of such a character at the start or at the end of the text are that character.
\<close>

definition whitespace :: "string list" where
  "whitespace =
     [[CHR 0x09], [CHR 0x0A], [CHR 0x0B], [CHR 0x0C], [CHR 0x0D],
      [CHR 0x1C], [CHR 0x1D], [CHR 0x1E], [CHR 0x1F], [CHR 0x20],
      [CHR 0xC2, CHR 0x85], [CHR 0xC2, CHR 0xA0], [CHR 0xE1, CHR 0x9A, CHR 0x80],
      [CHR 0xE2, CHR 0x80, CHR 0x80], [CHR 0xE2, CHR 0x80, CHR 0x81],
      [CHR 0xE2, CHR 0x80, CHR 0x82], [CHR 0xE2, CHR 0x80, CHR 0x83],
      [CHR 0xE2, CHR 0x80, CHR 0x84], [CHR 0xE2, CHR 0x80, CHR 0x85],
      [CHR 0xE2, CHR 0x80, CHR 0x86], [CHR 0xE2, CHR 0x80, CHR 0x87],
      [CHR 0xE2, CHR 0x80, CHR 0x88], [CHR 0xE2, CHR 0x80, CHR 0x89],
      [CHR 0xE2, CHR 0x80, CHR 0x8A], [CHR 0xE2, CHR 0x80, CHR 0xA8],
      [CHR 0xE2, CHR 0x80, CHR 0xA9], [CHR 0xE2, CHR 0x80, CHR 0xAF],
      [CHR 0xE2, CHR 0x81, CHR 0x9F], [CHR 0xE3, CHR 0x80, CHR 0x80]]"

text \<open>Removing, from the start of a text, every occurrence of one of the given strings.\<close>

function drop_leading :: "string list \<Rightarrow> string \<Rightarrow> string" where
  "drop_leading us s =
     (case find (\<lambda>u. u \<noteq> [] \<and> prefix u s) us of
        None \<Rightarrow> s
      | Some u \<Rightarrow> drop_leading us (drop (length u) s))"
  by pat_completeness auto
termination
  by (relation "measure (\<lambda>(us, s). length s)") (auto simp: find_Some_iff prefix_def)

declare drop_leading.simps [simp del]

text \<open>\<open>str.strip()\<close>: the whitespace at the start and at the end of the text is removed.\<close>

definition strip :: "string \<Rightarrow> string" where
  "strip s = rev (drop_leading (map rev whitespace) (rev (drop_leading whitespace s)))"

text \<open>
  \<open>str.lower()\<close>: the letters A to Z are mapped to a to z. The generator compares the result
  with \<open>y\<close> only, and of all characters only Y and y have y as their lower case.
\<close>

definition lower_char :: "char \<Rightarrow> char" where
  "lower_char c =
     (let n = (of_char c :: nat) in if 65 \<le> n \<and> n \<le> 90 then char_of (n + 32) else c)"

definition lower :: "string \<Rightarrow> string" where
  "lower s = map lower_char s"

text \<open>\<open>str(n)\<close> for a natural number: its decimal digits.\<close>

definition digit_char :: "nat \<Rightarrow> char" where
  "digit_char d = ''0123456789'' ! d"

fun str_nat :: "nat \<Rightarrow> string" where
  "str_nat n = (if n < 10 then [digit_char n] else str_nat (n div 10) @ [digit_char (n mod 10)])"

declare str_nat.simps [simp del]

text \<open>
  The date of the run, read by \<open>datetime.now()\<close>. \<open>strftime("%Y-%m-%d")\<close> pads month
  and day to two digits; the year is printed as it is (four digits for the years 1000 to
  9999). All clock reads of one run are taken to fall on the same day.
\<close>

record date =
  year :: nat
  month :: nat
  day :: nat

definition pad2 :: "nat \<Rightarrow> string" where
  "pad2 n = (if n < 10 then ''0'' @ str_nat n else str_nat n)"

definition strftime_ymd :: "date \<Rightarrow> string" where
  "strftime_ymd d = str_nat (year d) @ ''-'' @ pad2 (month d) @ ''-'' @ pad2 (day d)"

subsection \<open>replace\_variables\<close>

definition replacements :: "date \<Rightarrow> ProjectConfig \<Rightarrow> (string \<times> string) list" where
  "replacements now config =
     (let fc = framework_config config in
      [(''{{LANGUAGE}}'', language fc),
       (''{{LANGUAGE_VERSION}}'', language_version fc),
       (''{{FRAMEWORK}}'', framework fc),
       (''{{PACKAGE_MANAGER}}'', package_manager fc),
       (''{{TEST_FRAMEWORK}}'', test_framework fc),
       (''{{COVERAGE_TOOL}}'', coverage_tool fc),
       (''{{DOCKER_IMAGE}}'', docker_image fc),
       (''{{PROJECT_NAME}}'', project_name config),
       (''{{PROJECT_DESCRIPTION}}'', cfg_description config),
       (''{{AUTHOR}}'', author config),
       (''{{GITLAB_URL}}'', gitlab_url config),
       (''{{COVERAGE_THRESHOLD}}'', coverage_threshold config),
       (''{{GENERATION_DATE}}'', strftime_ymd now),
       (''{{YEAR}}'', str_nat (year now))])"

text \<open>The loop \<open>for placeholder, value in replacements.items()\<close> over any table.\<close>

definition replace_all :: "(string \<times> string) list \<Rightarrow> string \<Rightarrow> string" where
  "replace_all reps content =
     foldl (\<lambda>result (placeholder, value). str_replace result placeholder value) content reps"

definition replace_variables :: "date \<Rightarrow> string \<Rightarrow> ProjectConfig \<Rightarrow> string" where
  "replace_variables now content config = replace_all (replacements now config) content"

text \<open>The recognized tokens: the keys of the replacement table.\<close>

definition tokens :: "string list" where
  "tokens =
     [''{{LANGUAGE}}'', ''{{LANGUAGE_VERSION}}'', ''{{FRAMEWORK}}'', ''{{PACKAGE_MANAGER}}'',
      ''{{TEST_FRAMEWORK}}'', ''{{COVERAGE_TOOL}}'', ''{{DOCKER_IMAGE}}'', ''{{PROJECT_NAME}}'',
      ''{{PROJECT_DESCRIPTION}}'', ''{{AUTHOR}}'', ''{{GITLAB_URL}}'', ''{{COVERAGE_THRESHOLD}}'',
      ''{{GENERATION_DATE}}'', ''{{YEAR}}'']"

subsection \<open>The single-pass reading of the specification\<close>

text \<open>
  The specification's description of substitution, for comparison with \<open>replace_variables\<close>:
  one pass over the original text, where at each position the first table entry whose token
  starts there is replaced by its value and scanning resumes after the token, so that an
  inserted value is never searched again.
\<close>

function spec_substitute :: "(string \<times> string) list \<Rightarrow> string \<Rightarrow> string" where
  "spec_substitute reps s =
     (if s = [] then []
      else case find (\<lambda>(t, v). t \<noteq> [] \<and> prefix t s) reps of
             Some (t, v) \<Rightarrow> v @ spec_substitute reps (drop (length t) s)
           | None \<Rightarrow> hd s # spec_substitute reps (tl s))"
  by pat_completeness auto
termination
  by (relation "measure (\<lambda>(reps, s). length s)") (auto simp: find_Some_iff)

declare spec_substitute.simps [simp del]


subsection \<open>Templates as sequences of literal text and tokens\<close>

text \<open>
  To speak of the positions of the tokens in a template, a template is described as a
  sequence of pieces: literal text, or a token \<open>{{NAME}}\<close>. \<open>render\<close> gives the text of the
  template, \<open>expand\<close> the text with the value of the table in the place of every token that
  the table knows (other tokens stay as they are). A template is well formed when its
  literal text has no opening brace and the names of its tokens have no brace at all.
\<close>

datatype piece = Lit string | Tok string

definition token :: "string \<Rightarrow> string" where
  "token n = ''{{'' @ n @ ''}}''"

fun render :: "piece list \<Rightarrow> string" where
  "render [] = []"
| "render (Lit s # ps) = s @ render ps"
| "render (Tok n # ps) = token n @ render ps"


fun tokens_of :: "piece list \<Rightarrow> string list" where
  "tokens_of [] = []"
| "tokens_of (Lit s # ps) = tokens_of ps"
| "tokens_of (Tok n # ps) = token n # tokens_of ps"

definition open_free :: "string \<Rightarrow> bool" where
  "open_free s = (CHR ''{'' \<notin> set s)"

definition brace_free :: "string \<Rightarrow> bool" where
  "brace_free s = (CHR ''{'' \<notin> set s \<and> CHR ''}'' \<notin> set s)"

fun well_formed :: "piece list \<Rightarrow> bool" where
  "well_formed [] = True"
| "well_formed (Lit s # ps) = (open_free s \<and> well_formed ps)"
| "well_formed (Tok n # ps) = (brace_free n \<and> well_formed ps)"



text \<open>The number of positions of a text at which a (non-empty) string occurs.\<close>

fun occurrences :: "string \<Rightarrow> string \<Rightarrow> nat" where
  "occurrences t [] = 0"
| "occurrences t (c # cs) = (if prefix t (c # cs) then 1 else 0) + occurrences t cs"


subsection \<open>File trees\<close>

text \<open>
  A file system is a tree: a regular file with its text, or a directory with its named
  entries (names are distinct in a real directory, see \<open>wf_tree\<close>). A path is the list of
  its components below the root of the tree. Symbolic links are not modelled.
\<close>

datatype tree = File string | Dir "(string \<times> tree) list"

type_synonym path = "string list"


fun lookup :: "tree \<Rightarrow> path \<Rightarrow> tree option" where
  "lookup t [] = Some t"
| "lookup (File c) (n # p) = None"
| "lookup (Dir es) (n # p) = (case map_of es n of None \<Rightarrow> None | Some t \<Rightarrow> lookup t p)"

text \<open>What \<open>os.stat\<close> tells about a path: absent, a regular file (with its text), a directory.\<close>

datatype entry = IsFile string | IsDir

definition stat :: "tree \<Rightarrow> path \<Rightarrow> entry option" where
  "stat t p = (case lookup t p of None \<Rightarrow> None
               | Some (File c) \<Rightarrow> Some (IsFile c)
               | Some (Dir es) \<Rightarrow> Some IsDir)"

text \<open>Exceptions that leave a function of the generator.\<close>

datatype exn = SystemExit nat | KeyboardInterrupt | EOFError | OSError

text \<open>
  \<open>Path.mkdir(parents=True, exist_ok=True)\<close>: creates the missing directories of the
  path; raises when a component of the path is a regular file.
\<close>

fun mkdir_p :: "tree \<Rightarrow> path \<Rightarrow> exn + tree" where
  "mkdir_p (File c) p = Inl OSError"
| "mkdir_p (Dir es) [] = Inr (Dir es)"
| "mkdir_p (Dir es) (n # p) =
     (case map_of es n of
        None \<Rightarrow> (case mkdir_p (Dir []) p of Inl e \<Rightarrow> Inl e
                 | Inr t' \<Rightarrow> Inr (Dir (es @ [(n, t')])))
      | Some t \<Rightarrow> (case mkdir_p t p of Inl e \<Rightarrow> Inl e
                   | Inr t' \<Rightarrow> Inr (Dir (AList.update n t' es))))"

text \<open>
  \<open>open(path, "w")\<close> followed by \<open>write(content)\<close>: creates or truncates the file;
  raises when the parent is not an existing directory or the path is a directory.
\<close>

fun write_file :: "tree \<Rightarrow> path \<Rightarrow> string \<Rightarrow> exn + tree" where
  "write_file (File c) [] content = Inr (File content)"
| "write_file (Dir es) [] content = Inl OSError"
| "write_file (File c) (n # p) content = Inl OSError"
| "write_file (Dir es) (n # p) content =
     (case map_of es n of
        None \<Rightarrow> if p = [] then Inr (Dir (es @ [(n, File content)])) else Inl OSError
      | Some t \<Rightarrow> (case write_file t p content of Inl e \<Rightarrow> Inl e
                   | Inr t' \<Rightarrow> Inr (Dir (AList.update n t' es))))"

text \<open>
  \<open>Path.touch()\<close>: leaves an existing file or directory as it is, creates an empty
  file otherwise; raises when the parent is not an existing directory.
\<close>

fun touch :: "tree \<Rightarrow> path \<Rightarrow> exn + tree" where
  "touch t [] = Inr t"
| "touch (File c) (n # p) = Inl OSError"
| "touch (Dir es) (n # p) =
     (case map_of es n of
        None \<Rightarrow> if p = [] then Inr (Dir (es @ [(n, File [])])) else Inl OSError
      | Some t \<Rightarrow> (case touch t p of Inl e \<Rightarrow> Inl e
                   | Inr t' \<Rightarrow> Inr (Dir (AList.update n t' es))))"

text \<open>
  \<open>Path.rglob("*")\<close>: every entry below a directory with its relative path, the entries
  of a directory before those of its subdirectories, subdirectories in directory order
  (the order of the entries is the order in which the operating system lists them).
\<close>

fun rglob :: "tree \<Rightarrow> (path \<times> tree) list" where
  "rglob (File c) = []"
| "rglob (Dir es) =
     map (\<lambda>(n, t). ([n], t)) es @
     concat (map (\<lambda>(n, t). case t of File c \<Rightarrow> []
                            | Dir ds \<Rightarrow> map (\<lambda>(p, u). (n # p, u)) (rglob t)) es)"

declare rglob.simps [simp del]


text \<open>\<open>str(path)\<close>: the components joined by a slash.\<close>

fun join :: "string \<Rightarrow> string list \<Rightarrow> string" where
  "join sep [] = []"
| "join sep [x] = x"
| "join sep (x # y # ys) = x @ sep @ join sep (y # ys)"

definition path_str :: "path \<Rightarrow> string" where
  "path_str p = (if p = [] then ''.'' else join ''/'' p)"

subsection \<open>The world of a run: file system, terminal input, printed output\<close>

text \<open>
  The terminal input is the list of the lines that \<open>input()\<close> will read, where an
  interrupt of the user is an event of its own; at the end of the list \<open>input()\<close> raises
  \<open>EOFError\<close>. The printed notifications are recorded without their colour codes.
\<close>

datatype stdin_event = Line string | Interrupt

datatype msg =
    Header string | Success string | Error string | Info string | Warning string
  | Prompt string | Plain string | Uncaught exn

record world =
  fs :: tree
  stdin :: "stdin_event list"
  stdout :: "msg list"

text \<open>A call either returns a value or raises; the world it leaves is kept in both cases.\<close>

type_synonym 'a result = "(exn + 'a) \<times> world"

definition and_then :: "'a result \<Rightarrow> ('a \<Rightarrow> world \<Rightarrow> 'b result) \<Rightarrow> 'b result" where
  "and_then r f = (case r of (Inl e, w) \<Rightarrow> (Inl e, w) | (Inr x, w) \<Rightarrow> f x w)"

text \<open>A file-system operation applied to the world.\<close>

definition on_fs :: "(tree \<Rightarrow> exn + tree) \<Rightarrow> world \<Rightarrow> unit result" where
  "on_fs f w = (case f (fs w) of Inl e \<Rightarrow> (Inl e, w) | Inr t \<Rightarrow> (Inr (), w\<lparr>fs := t\<rparr>))"

definition emit :: "msg \<Rightarrow> world \<Rightarrow> world" where
  "emit m w = w\<lparr>stdout := stdout w @ [m]\<rparr>"

definition print_header :: "string \<Rightarrow> world \<Rightarrow> world" where
  "print_header text w = emit (Header text) w"

definition print_success :: "string \<Rightarrow> world \<Rightarrow> world" where
  "print_success text w = emit (Success text) w"

definition print_error :: "string \<Rightarrow> world \<Rightarrow> world" where
  "print_error text w = emit (Error text) w"

definition print_info :: "string \<Rightarrow> world \<Rightarrow> world" where
  "print_info text w = emit (Info text) w"

definition print_warning :: "string \<Rightarrow> world \<Rightarrow> world" where
  "print_warning text w = emit (Warning text) w"

definition input :: "string \<Rightarrow> world \<Rightarrow> string result" where
  "input prompt w =
     (case stdin w of
        [] \<Rightarrow> (Inl EOFError, emit (Prompt prompt) w)
      | Line s # rest \<Rightarrow> (Inr s, emit (Prompt prompt) (w\<lparr>stdin := rest\<rparr>))
      | Interrupt # rest \<Rightarrow> (Inl KeyboardInterrupt, emit (Prompt prompt) (w\<lparr>stdin := rest\<rparr>)))"

text \<open>
  The environment of a run: \<open>templates_dir\<close> of the generator, the read-only tree of
  template files found there, the date of the run, and Python's \<open>int()\<close> on strings
  (\<open>None\<close> for \<open>ValueError\<close>). The output directory is not inside the template tree.
\<close>

record env =
  templates_dir :: path
  templates :: tree
  now :: date
  py_int :: "string \<Rightarrow> int option"

definition frameworks_dir :: path where
  "frameworks_dir = [''frameworks'']"

definition base_template :: path where
  "base_template = [''COPILOT_INSTRUCTIONS.template.md'']"

subsection \<open>Prompts and configuration\<close>

definition list_frameworks :: "world \<Rightarrow> world" where
  "list_frameworks w =
     foldl (\<lambda>w (i, (key, config)).
              emit (Plain (''   '' @ description config @ ''\<newline>''))
                (emit (Plain (''   Testing: '' @ test_framework config @ '' + '' @ coverage_tool config))
                  (emit (Plain (''   Language: '' @ language config @ '' '' @ language_version config))
                    (emit (Plain (str_nat i @ ''. '' @ display_name config)) w))))
       (print_header ''Available Frameworks'' w)
       (zip [1 ..< Suc (length FRAMEWORKS)] FRAMEWORKS)"

definition get_user_input :: "string \<Rightarrow> string option \<Rightarrow> world \<Rightarrow> string result" where
  "get_user_input prompt default' w =
     (let prompt' = (case default' of
                       None \<Rightarrow> prompt @ '': ''
                     | Some d \<Rightarrow> if d \<noteq> [] then prompt @ '' ['' @ d @ '']: '' else prompt @ '': '')
      in and_then (input prompt' w)
           (\<lambda>line w'. let val = strip line
                       in (Inr (if val \<noteq> [] then val
                                else (case default' of None \<Rightarrow> [] | Some d \<Rightarrow> d)), w')))"

function select_framework_loop :: "env \<Rightarrow> world \<Rightarrow> FrameworkConfig result" where
  "select_framework_loop e w =
     (case get_user_input (''Select framework (1-'' @ str_nat (length FRAMEWORKS) @ '')'')
             (Some ''1'') w of
        (Inl x, w') \<Rightarrow> (Inl x, w')
      | (Inr choice, w') \<Rightarrow>
          (case py_int e choice of
             None \<Rightarrow> select_framework_loop e (print_error ''Please enter a valid number'' w')
           | Some i \<Rightarrow>
               (let index = i - 1 in
                if 0 \<le> index \<and> index < int (length FRAMEWORKS)
                then (let config = map snd FRAMEWORKS ! nat index
                      in (Inr config, print_success (''Selected: '' @ display_name config) w'))
                else select_framework_loop e
                       (print_error (''Please enter a number between 1 and '' @
                                      str_nat (length FRAMEWORKS)) w'))))"
  by pat_completeness auto
termination
  by (relation "measure (\<lambda>(e, w). length (stdin w))")
     (auto simp: get_user_input_def input_def and_then_def emit_def print_error_def Let_def
           split: list.splits stdin_event.splits)

declare select_framework_loop.simps [simp del]

definition select_framework :: "env \<Rightarrow> world \<Rightarrow> FrameworkConfig result" where
  "select_framework e w = select_framework_loop e (list_frameworks w)"

definition get_project_config ::
  "env \<Rightarrow> string option \<Rightarrow> string option \<Rightarrow> world \<Rightarrow> ProjectConfig result" where
  "get_project_config e framework_key name_arg w =
     and_then
       (case framework_key of
          None \<Rightarrow> select_framework e w
        | Some k \<Rightarrow>
            if k = [] then select_framework e w
            else (case map_of FRAMEWORKS k of
                    None \<Rightarrow> (Inl (SystemExit 1), print_error (''Unknown framework: '' @ k) w)
                  | Some config \<Rightarrow> (Inr config, w)))
       (\<lambda>config w.
          and_then
            (case name_arg of
               None \<Rightarrow> get_user_input ''Project name'' (Some (''my-'' @ name config @ ''-project'')) w
             | Some n \<Rightarrow>
                 if n = []
                 then get_user_input ''Project name'' (Some (''my-'' @ name config @ ''-project'')) w
                 else (Inr n, w))
            (\<lambda>pname w.
               and_then (get_user_input ''Author name'' (Some ''Your Team'') w)
                 (\<lambda>a w.
                    and_then
                      (get_user_input ''Project description''
                         (Some (''A '' @ display_name config @ '' project'')) w)
                      (\<lambda>d w.
                         and_then (get_user_input ''GitLab URL (optional)'' (Some '''') w)
                           (\<lambda>g w.
                              and_then (get_user_input ''Coverage threshold'' (Some ''80'') w)
                                (\<lambda>t w.
                                   (Inr \<lparr>framework_config = config,
                                         project_name = pname,
                                         author = a,
                                         cfg_description = d,
                                         gitlab_url = g,
                                         coverage_threshold = t\<rparr>, w)))))))"

subsection \<open>Copying templates\<close>

text \<open>The body of the loop \<open>for file_path in framework_dir.rglob("*")\<close>.\<close>

fun copy_files ::
  "env \<Rightarrow> ProjectConfig \<Rightarrow> path \<Rightarrow> (path \<times> tree) list \<Rightarrow> path list \<Rightarrow> world \<Rightarrow>
   path list result" where
  "copy_files e config output_dir [] copied_files w = (Inr copied_files, w)"
| "copy_files e config output_dir ((relative_path, node) # rest) copied_files w =
     (case node of
        Dir ds \<Rightarrow> copy_files e config output_dir rest copied_files w
      | File content \<Rightarrow>
          (let dest_path = output_dir @ relative_path in
           and_then (on_fs (\<lambda>t. mkdir_p t (butlast dest_path)) w)
             (\<lambda>u w.
                let processed_content = replace_variables (now e) content config in
                and_then (on_fs (\<lambda>t. write_file t dest_path processed_content) w)
                  (\<lambda>u w. copy_files e config output_dir rest (copied_files @ [dest_path])
                            (print_success (''Created: '' @ path_str relative_path) w)))))"

definition copy_framework_template ::
  "env \<Rightarrow> ProjectConfig \<Rightarrow> path \<Rightarrow> world \<Rightarrow> path list result" where
  "copy_framework_template e config output_dir w =
     (let fc = framework_config config;
          framework_dir = frameworks_dir @ [name fc] in
      case lookup (templates e) framework_dir of
        None \<Rightarrow>
          (Inr [], print_warning (''Framework template not found: '' @
                                   path_str (templates_dir e @ framework_dir)) w)
      | Some subtree \<Rightarrow>
          and_then (on_fs (\<lambda>t. mkdir_p t output_dir) w)
            (\<lambda>u w. copy_files e config output_dir (rglob subtree) [] w))"

definition generate_from_base_template ::
  "env \<Rightarrow> ProjectConfig \<Rightarrow> path \<Rightarrow> world \<Rightarrow> path option result" where
  "generate_from_base_template e config output_dir w =
     (case lookup (templates e) base_template of
        None \<Rightarrow>
          (Inr None, print_warning (''Base template not found: '' @
                                     path_str (templates_dir e @ base_template)) w)
      | Some node \<Rightarrow>
          (let output_file = output_dir @ [''COPILOT_INSTRUCTIONS.md''] in
           and_then (on_fs (\<lambda>t. mkdir_p t output_dir) w)
             (\<lambda>u w.
                case node of
                  Dir ds \<Rightarrow> (Inl OSError, w)
                | File content \<Rightarrow>
                    (let processed_content = replace_variables (now e) content config in
                     and_then (on_fs (\<lambda>t. write_file t output_file processed_content) w)
                       (\<lambda>u w. (Inr (Some output_file),
                                print_success ''Generated: COPILOT_INSTRUCTIONS.md'' w))))))"

subsection \<open>The directory skeleton\<close>

text \<open>The list \<open>directories\<close> chosen by the language; each entry is split at its slashes.\<close>

definition directories :: "FrameworkConfig \<Rightarrow> path list" where
  "directories fw =
     (if language fw = ''Python'' then
        [[''src'', ''services''],
         [''src'', ''config''],
         [''src'', ''operations''],
         [''src'', ''utilities''],
         [''tests'', ''services''],
         [''tests'', ''config''],
         [''tests'', ''operations''],
         [''tests'', ''utilities'']]
      else if language fw = ''TypeScript'' then
        [[''src'', ''services''],
         [''src'', ''config''],
         [''src'', ''utils''],
         [''src'', ''types''],
         [''tests'', ''services''],
         [''tests'', ''config''],
         [''tests'', ''utils'']]
      else
        [[''src'', ''services''],
         [''src'', ''config''],
         [''tests'', ''services''],
         [''tests'', ''config'']])"

text \<open>The loop \<open>for dir_path in directories\<close>.\<close>

fun create_directories ::
  "path \<Rightarrow> FrameworkConfig \<Rightarrow> path list \<Rightarrow> world \<Rightarrow> unit result" where
  "create_directories output_dir fw [] w = (Inr (), w)"
| "create_directories output_dir fw (dir_path # rest) w =
     (let full_path = output_dir @ dir_path in
      and_then (on_fs (\<lambda>t. mkdir_p t full_path) w)
        (\<lambda>u w.
           and_then
             (if language fw = ''Python''
              then on_fs (\<lambda>t. touch t (full_path @ [''__init__.py''])) w
              else (Inr (), w))
             (\<lambda>u w. create_directories output_dir fw rest w)))"

definition create_directory_structure ::
  "path \<Rightarrow> FrameworkConfig \<Rightarrow> world \<Rightarrow> unit result" where
  "create_directory_structure output_dir fw w =
     and_then (create_directories output_dir fw (directories fw) w)
       (\<lambda>u w. (Inr (), print_success ''Created directory structure'' w))"

subsection \<open>The README\<close>

definition get_install_command :: "FrameworkConfig \<Rightarrow> string" where
  "get_install_command fc =
     (if package_manager fc = ''Poetry'' then ''poetry install''
      else if package_manager fc = ''npm/yarn'' then ''npm install  # or: yarn install''
      else ''# Install dependencies'')"

definition get_test_command :: "FrameworkConfig \<Rightarrow> string" where
  "get_test_command fc =
     (if test_framework fc = ''pytest'' then ''poetry run pytest --cov=src''
      else if test_framework fc = ''Jest'' then ''npm test  # or: yarn test''
      else if test_framework fc = ''Behave + pytest''
        then ''poetry run behave && poetry run pytest''
      else ''# Run tests'')"

definition get_run_command :: "FrameworkConfig \<Rightarrow> string" where
  "get_run_command fc =
     (if framework fc = ''FastAPI'' then ''poetry run uvicorn src.main:app --reload''
      else if framework fc = ''Express'' then ''npm start  # or: yarn start''
      else if framework fc = ''Behave'' then ''poetry run python src/main.py''
      else ''# Run application'')"

text \<open>The box-drawing characters and the arrow of the README, as their UTF-8 bytes.\<close>

definition tee :: string where
  "tee = [CHR 0xE2, CHR 0x94, CHR 0x9C, CHR 0xE2, CHR 0x94, CHR 0x80, CHR 0xE2, CHR 0x94, CHR 0x80]"

definition elbow :: string where
  "elbow = [CHR 0xE2, CHR 0x94, CHR 0x94, CHR 0xE2, CHR 0x94, CHR 0x80, CHR 0xE2, CHR 0x94, CHR 0x80]"

definition arrow :: string where
  "arrow = [CHR 0xE2, CHR 0x86, CHR 0x92]"

definition get_structure_example :: "FrameworkConfig \<Rightarrow> string" where
  "get_structure_example fc =
     (if language fc = ''Python'' then
        join ''\<newline>''
          [''src/'',
           tee @ '' services/     # Business logic'',
           tee @ '' config/       # Configuration'',
           tee @ '' operations/   # Complex operations'',
           tee @ '' utilities/    # Helper functions'',
           elbow @ '' main.py       # Entry point'',
           '''',
           ''tests/'',
           tee @ '' services/     # Service tests'',
           elbow @ '' test_*.py     # Other tests'']
      else if language fc = ''TypeScript'' then
        join ''\<newline>''
          [''src/'',
           tee @ '' services/     # Business logic'',
           tee @ '' config/       # Configuration'',
           tee @ '' utils/        # Utilities'',
           tee @ '' types/        # Type definitions'',
           elbow @ '' index.ts      # Entry point'',
           '''',
           ''tests/'',
           tee @ '' services/     # Service tests'',
           elbow @ '' *.test.ts     # Test files'']
      else
        join ''\<newline>''
          [''src/'',
           elbow @ '' main.*        # Entry point'',
           '''',
           ''tests/'',
           elbow @ '' test_*.*      # Tests''])"

definition readme_content :: "date \<Rightarrow> ProjectConfig \<Rightarrow> string" where
  "readme_content today config =
     (let fc = framework_config config in
      concat (map (\<lambda>l. l @ ''\<newline>'')
        [''# '' @ project_name config,
         '''',
         cfg_description config,
         '''',
         ''## Stack'',
         '''',
         ''- **Language**: '' @ language fc @ '' '' @ language_version fc,
         ''- **Framework**: '' @ framework fc,
         ''- **Package Manager**: '' @ package_manager fc,
         ''- **Testing**: '' @ test_framework fc @ '' + '' @ coverage_tool fc,
         ''- **CI/CD**: GitLab CI/CD'',
         '''',
         ''## Getting Started'',
         '''',
         ''### Prerequisites'',
         '''',
         ''- '' @ language fc @ '' '' @ language_version fc,
         ''- '' @ package_manager fc,
         ''- Docker'',
         '''',
         ''### Installation'',
         '''',
         ''```bash'',
         ''# Install dependencies'',
         get_install_command fc,
         '''',
         ''# Run tests'',
         get_test_command fc,
         '''',
         ''# Run application'',
         get_run_command fc,
         ''```'',
         '''',
         ''## Project Structure'',
         '''',
         ''```'',
         get_structure_example fc,
         ''```'',
         '''',
         ''## Development'',
         '''',
         ''See `COPILOT_INSTRUCTIONS.md` for detailed coding standards and guidelines.'',
         '''',
         ''## Testing'',
         '''',
         ''- Minimum coverage: '' @ coverage_threshold config @ ''%'',
         ''- All code must have corresponding tests'',
         '''',
         ''## CI/CD'',
         '''',
         ''Pipeline stages: `lint` '' @ arrow @ '' `test` '' @ arrow @ '' `build` '' @ arrow @
           '' `deploy`'',
         '''',
         ''See `.gitlab-ci.yml` for details.'',
         '''',
         ''## Author'',
         '''',
         author config,
         '''',
         ''## Generated'',
         '''',
         ''This project was generated on '' @ strftime_ymd today @
           '' using the project template system.'']))"

definition generate_readme :: "env \<Rightarrow> ProjectConfig \<Rightarrow> path \<Rightarrow> world \<Rightarrow> unit result" where
  "generate_readme e config output_dir w =
     (let readme_path = output_dir @ [''README.md''] in
      and_then (on_fs (\<lambda>t. write_file t readme_path (readme_content (now e) config)) w)
        (\<lambda>u w. (Inr (), print_success ''Generated: README.md'' w)))"

subsection \<open>generate\_project and main\<close>

text \<open>
  The test \<open>output_dir.exists() and any(output_dir.iterdir())\<close>; \<open>iterdir\<close> raises on a
  regular file.
\<close>

definition exists_nonempty :: "path \<Rightarrow> world \<Rightarrow> bool result" where
  "exists_nonempty output_dir w =
     (case lookup (fs w) output_dir of
        None \<Rightarrow> (Inr False, w)
      | Some (File c) \<Rightarrow> (Inl OSError, w)
      | Some (Dir es) \<Rightarrow> (Inr (es \<noteq> []), w))"

text \<open>The part of \<open>generate_project\<close> after the confirmation (from \<open>if use_framework_template\<close>).\<close>

definition generate_files ::
  "env \<Rightarrow> ProjectConfig \<Rightarrow> path \<Rightarrow> bool \<Rightarrow> world \<Rightarrow> unit result" where
  "generate_files e config output_dir use_framework_template w =
     (let fc = framework_config config in
      and_then
        (if use_framework_template then
           and_then (copy_framework_template e config output_dir w)
             (\<lambda>copied_files w.
                if copied_files = [] then
                  and_then
                    (generate_from_base_template e config output_dir
                       (print_info ''No framework template found, using base template'' w))
                    (\<lambda>r w. (Inr (), w))
                else (Inr (), w))
         else and_then (generate_from_base_template e config output_dir w) (\<lambda>r w. (Inr (), w)))
        (\<lambda>u w.
           and_then (create_directory_structure output_dir fc w)
             (\<lambda>u w.
                and_then (generate_readme e config output_dir w)
                  (\<lambda>u w.
                     (Inr (),
                      emit (Plain ''  4. Start coding!\<newline>'')
                        (emit (Plain (''  3. '' @ get_install_command fc))
                          (emit (Plain ''  2. Review COPILOT_INSTRUCTIONS.md'')
                            (emit (Plain (''  1. cd '' @ path_str output_dir))
                              (print_info ''\<newline>Next steps:''
                                (print_success (''Project created at: '' @ path_str output_dir)
                                  (print_header ''Project Generation Complete!'' w)))))))))))"

definition generate_project ::
  "env \<Rightarrow> path \<Rightarrow> string option \<Rightarrow> string option \<Rightarrow> bool \<Rightarrow> world \<Rightarrow> unit result" where
  "generate_project e output_dir framework_key name_arg use_framework_template w =
     and_then
       (get_project_config e framework_key name_arg (print_header ''Project Template Generator'' w))
       (\<lambda>config w.
          let fc = framework_config config;
              w1 = print_info (''Output directory: '' @ path_str output_dir @ ''\<newline>'')
                     (print_info (''\<newline>Generating '' @ display_name fc @ '' project...'') w)
          in and_then (exists_nonempty output_dir w1)
               (\<lambda>nonempty w.
                  if nonempty then
                    and_then
                      (get_user_input
                         (''Directory '' @ path_str output_dir @ '' is not empty. Continue? (y/N)'')
                         (Some ''n'') w)
                      (\<lambda>response w.
                         if lower response \<noteq> ''y''
                         then (Inr (), print_warning ''Generation cancelled'' w)
                         else generate_files e config output_dir use_framework_template w)
                  else generate_files e config output_dir use_framework_template w))"

text \<open>The parsed command line.\<close>

record args =
  arg_framework :: "string option"
  arg_name :: "string option"
  arg_output :: path
  arg_base_only :: bool
  arg_list :: bool

text \<open>
  \<open>main\<close> after \<open>parse_args\<close>: the exit status of the process and the world it leaves.
  A \<open>SystemExit\<close> is not an \<open>Exception\<close> and passes through the handlers.
\<close>

definition main :: "env \<Rightarrow> args \<Rightarrow> world \<Rightarrow> nat \<times> world" where
  "main e a w =
     (if arg_list a then (0, list_frameworks w)
      else
        case generate_project e (arg_output a) (arg_framework a) (arg_name a)
               (\<not> arg_base_only a) w of
          (Inr u, w') \<Rightarrow> (0, w')
        | (Inl KeyboardInterrupt, w') \<Rightarrow>
            (1, emit (Plain ''\<newline>Generation cancelled by user'') w')
        | (Inl (SystemExit n), w') \<Rightarrow> (n, w')
        | (Inl x, w') \<Rightarrow> (1, emit (Uncaught x) w'))"

section \<open>Properties\<close>

subsection \<open>str.replace\<close>

lemma str_replace_Nil [simp]: "old \<noteq> [] \<Longrightarrow> str_replace [] old new = []"
  by (simp add: str_replace.simps)


lemma str_replace_Cons_skip:
  "old \<noteq> [] \<Longrightarrow> \<not> prefix old (c # cs) \<Longrightarrow>
   str_replace (c # cs) old new = c # str_replace cs old new"
  by (subst str_replace.simps) simp

lemma str_replace_absent:
  "old \<noteq> [] \<Longrightarrow> \<not> sublist old s \<Longrightarrow> str_replace s old new = s"
proof (induction s)
  case Nil
  then show ?case by simp
next
  case (Cons c cs)
  from Cons.prems have np: "\<not> prefix old (c # cs)" and ns: "\<not> sublist old cs"
    by (auto simp: sublist_Cons_right)
  with Cons show ?case
    by (simp add: str_replace_Cons_skip)
qed

lemma replace_all_absent:
  "\<forall>(t, v) \<in> set reps. t \<noteq> [] \<and> \<not> sublist t x \<Longrightarrow> replace_all reps x = x"
  unfolding replace_all_def
  by (induction reps) (auto simp: str_replace_absent)

lemma fst_replacements: "map fst (replacements today c) = tokens"
  by (simp add: replacements_def tokens_def Let_def)


subsection \<open>Worlds and prompts\<close>

lemma stdin_emit [simp]: "stdin (emit m w) = stdin w"
  by (simp add: emit_def)

lemma fs_emit [simp]: "fs (emit m w) = fs w"
  by (simp add: emit_def)

lemma stdout_emit [simp]: "stdout (emit m w) = stdout w @ [m]"
  by (simp add: emit_def)

lemma drop_leading_Nil [simp]: "drop_leading us [] = []"
proof -
  have "find (\<lambda>u. u \<noteq> [] \<and> prefix u []) us = None"
    by (simp add: find_None_iff)
  then show ?thesis by (subst drop_leading.simps) simp
qed

lemma strip_Nil [simp]: "strip [] = []"
  by (simp add: strip_def)

lemma strip_no_break_space: "strip [CHR 0xC2, CHR 0xA0, CHR ''y'', CHR 0x20] = ''y''"
  by code_simp

lemma get_user_input_Line:
  "stdin w = Line l # rest \<Longrightarrow>
   get_user_input prompt d w =
     (Inr (if strip l \<noteq> [] then strip l else (case d of None \<Rightarrow> [] | Some x \<Rightarrow> x)),
      emit (Prompt (case d of None \<Rightarrow> prompt @ '': ''
                    | Some x \<Rightarrow> if x \<noteq> [] then prompt @ '' ['' @ x @ '']: '' else prompt @ '': ''))
        (w\<lparr>stdin := rest\<rparr>))"
  by (simp add: get_user_input_def input_def and_then_def Let_def)

subsection \<open>The registry\<close>

lemma map_of_FRAMEWORKS_name: "map_of FRAMEWORKS key = Some fc \<Longrightarrow> name fc = key"
  by (auto simp: FRAMEWORKS_def split: if_splits)

text \<open>
  Claim C10. Looking a registered framework key up in \<open>FRAMEWORKS\<close> gives a configuration
  whose \<open>name\<close> field is that key; an unregistered key is not found, and
  \<open>get_project_config\<close> then prints the error and exits with status 1.
\<close>

theorem lookup_registered_key:
  "(\<forall>key \<in> set (map fst FRAMEWORKS). \<exists>fc. map_of FRAMEWORKS key = Some fc \<and> name fc = key) \<and>
   (\<forall>key. key \<notin> set (map fst FRAMEWORKS) \<longrightarrow> map_of FRAMEWORKS key = None) \<and>
   (\<forall>e key nm w. key \<noteq> [] \<and> key \<notin> set (map fst FRAMEWORKS) \<longrightarrow>
      get_project_config e (Some key) nm w =
        (Inl (SystemExit 1), print_error (''Unknown framework: '' @ key) w))"
proof (intro conjI ballI allI impI)
  fix key assume "key \<in> set (map fst FRAMEWORKS)"
  then obtain fc where "map_of FRAMEWORKS key = Some fc"
    by (metis map_of_eq_None_iff not_Some_eq set_map)
  then show "\<exists>fc. map_of FRAMEWORKS key = Some fc \<and> name fc = key"
    using map_of_FRAMEWORKS_name by blast
next
  fix key assume "key \<notin> set (map fst FRAMEWORKS)"
  then show "map_of FRAMEWORKS key = None"
    by (simp add: map_of_eq_None_iff)
next
  fix e key nm w assume "key \<noteq> [] \<and> key \<notin> set (map fst FRAMEWORKS)"
  then have "key \<noteq> []" "map_of FRAMEWORKS key = None"
    by (simp_all add: map_of_eq_None_iff)
  then show "get_project_config e (Some key) nm w =
        (Inl (SystemExit 1), print_error (''Unknown framework: '' @ key) w)"
    by (simp add: get_project_config_def and_then_def)
qed

theorem lookup_registered_key_witness:
  "''python-behave'' \<in> set (map fst FRAMEWORKS) \<and>
   (\<exists>fc. map_of FRAMEWORKS ''python-behave'' = Some fc \<and> name fc = ''python-behave'') \<and>
   ''rust-axum'' \<notin> set (map fst FRAMEWORKS) \<and> map_of FRAMEWORKS ''rust-axum'' = None"
proof -
  have a: "''python-behave'' \<in> set (map fst FRAMEWORKS)" by (simp add: FRAMEWORKS_def)
  have b: "''rust-axum'' \<notin> set (map fst FRAMEWORKS)" by (simp add: FRAMEWORKS_def)
  from lookup_registered_key a b show ?thesis by blast
qed

subsection \<open>Resolving the configuration\<close>

text \<open>
  Claim C6. With the framework key \<open>python-fastapi\<close>, no project name and an input that
  answers the five prompts with empty lines, \<open>get_project_config\<close> returns the project name
  \<open>my-python-fastapi-project\<close> and the coverage threshold \<open>80\<close> (and the other documented
  defaults). In general \<open>get_user_input\<close> returns the default of the prompt when the line
  entered is empty (or blank), which is the empty string only when the default is.
\<close>

theorem resolve_config_defaults:
  "(stdin w = replicate 5 (Line []) @ rest \<longrightarrow>
      fst (get_project_config e (Some ''python-fastapi'') None w) =
        Inr \<lparr>framework_config = the (map_of FRAMEWORKS ''python-fastapi''),
             project_name = ''my-python-fastapi-project'',
             author = ''Your Team'',
             cfg_description = ''A Python + FastAPI project'',
             gitlab_url = [],
             coverage_threshold = ''80''\<rparr>) \<and>
   (\<forall>prompt d v l tl. stdin v = Line l # tl \<and> strip l = [] \<longrightarrow>
      fst (get_user_input prompt (Some d) v) = Inr d)"
proof (intro conjI impI allI)
  assume "stdin w = replicate 5 (Line []) @ rest"
  then have s: "stdin w = Line [] # Line [] # Line [] # Line [] # Line [] # rest"
    by (simp add: numeral_eq_Suc)
  show "fst (get_project_config e (Some ''python-fastapi'') None w) =
        Inr \<lparr>framework_config = the (map_of FRAMEWORKS ''python-fastapi''),
             project_name = ''my-python-fastapi-project'',
             author = ''Your Team'',
             cfg_description = ''A Python + FastAPI project'',
             gitlab_url = [],
             coverage_threshold = ''80''\<rparr>"
    by (simp add: get_project_config_def and_then_def FRAMEWORKS_def get_user_input_Line s)
next
  fix prompt d and v :: world and l tl assume "stdin v = Line l # tl \<and> strip l = []"
  then show "fst (get_user_input prompt (Some d) v) = Inr d"
    by (simp add: get_user_input_Line)
qed

theorem resolve_config_defaults_witness:
  "(let c = projr (fst (get_project_config
      \<lparr>templates_dir = [], templates = Dir [], now = \<lparr>year = 2026, month = 1, day = 1\<rparr>,
       py_int = (\<lambda>s. None)\<rparr>
      (Some ''python-fastapi'') None
      \<lparr>fs = Dir [], stdin = replicate 5 (Line []), stdout = []\<rparr>))
    in project_name c = ''my-python-fastapi-project'' \<and> coverage_threshold c = ''80'') \<and>
   fst (get_user_input ''GitLab URL (optional)'' (Some [])
      \<lparr>fs = Dir [], stdin = [Line ''  ''], stdout = []\<rparr>) = Inr []"
proof -
  let ?w = "\<lparr>fs = Dir [], stdin = replicate 5 (Line []), stdout = []\<rparr>"
  let ?v = "\<lparr>fs = Dir [], stdin = [Line ''  ''], stdout = []\<rparr>"
  have a: "stdin ?w = replicate 5 (Line []) @ []" by simp
  have "strip ''  '' = []" by code_simp
  then have b: "stdin ?v = Line ''  '' # [] \<and> strip ''  '' = []" by simp
  from resolve_config_defaults [of ?w "[]"] a b show ?thesis by simp
qed

subsection \<open>Substitution on text without tokens\<close>

text \<open>
  Claim C5. On a text in which none of the recognized tokens occurs, \<open>replace_variables\<close>
  is the identity, for every configuration.
\<close>

theorem substitute_identity_without_tokens:
  "\<forall>t \<in> set tokens. \<not> sublist t x \<Longrightarrow> replace_variables today x c = x"
proof -
  assume a: "\<forall>t \<in> set tokens. \<not> sublist t x"
  have "\<forall>(t, v) \<in> set (replacements today c). t \<noteq> [] \<and> \<not> sublist t x"
  proof (clarify)
    fix t v assume "(t, v) \<in> set (replacements today c)"
    then have "t \<in> set (map fst (replacements today c))" by force
    then have t: "t \<in> set tokens" by (simp only: fst_replacements)
    then have "t \<noteq> []" by (auto simp: tokens_def)
    with a t show "t \<noteq> [] \<and> \<not> sublist t x" by blast
  qed
  then show ?thesis
    unfolding replace_variables_def by (rule replace_all_absent)
qed

theorem substitute_identity_without_tokens_witness:
  "list_all (\<lambda>t. \<not> sublist t ''Hi {{NAME}} {LANGUAGE}'') tokens \<and>
   replace_variables \<lparr>year = 2026, month = 1, day = 1\<rparr> ''Hi {{NAME}} {LANGUAGE}''
     \<lparr>framework_config = the (map_of FRAMEWORKS ''python-fastapi''), project_name = ''demo'',
      author = ''Your Team'', cfg_description = ''d'', gitlab_url = [], coverage_threshold = ''80''\<rparr>
    = ''Hi {{NAME}} {LANGUAGE}''"
proof -
  have a: "\<forall>t \<in> set tokens. \<not> sublist t ''Hi {{NAME}} {LANGUAGE}''"
    by (simp add: tokens_def sublist_code)
  from substitute_identity_without_tokens [OF a] a show ?thesis
    by (simp add: list_all_iff)
qed

subsection \<open>File-system operations\<close>

lemma stat_Nil: "stat t [] = (case t of File c \<Rightarrow> Some (IsFile c) | Dir es \<Rightarrow> Some IsDir)"
  by (simp add: stat_def)

lemma stat_File_Cons [simp]: "stat (File c) (n # p) = None"
  by (simp add: stat_def)

lemma stat_Dir_Nil [simp]: "stat (Dir es) [] = Some IsDir"
  by (simp add: stat_def)

lemma stat_File_Nil [simp]: "stat (File c) [] = Some (IsFile c)"
  by (simp add: stat_def)

lemma stat_Dir_Cons:
  "stat (Dir es) (n # p) = (case map_of es n of None \<Rightarrow> None | Some t \<Rightarrow> stat t p)"
  by (simp add: stat_def split: option.splits)

lemma stat_empty_Dir [simp]: "stat (Dir []) (n # p) = None"
  by (simp add: stat_Dir_Cons)

lemma map_of_snoc:
  "map_of es n = None \<Longrightarrow> ([n \<mapsto> t] ++ map_of es) m = (if m = n then Some t else map_of es m)"
  by (auto simp: map_add_def split: option.splits)

lemma mkdir_p_stat:
  "mkdir_p t q = Inr t' \<Longrightarrow>
   stat t' p = (if stat t p = None \<and> prefix p q then Some IsDir else stat t p)"
proof (induction t q arbitrary: t' p rule: mkdir_p.induct)
  case (1 c q)
  then show ?case by simp
next
  case (2 es)
  then show ?case by auto
next
  case (3 es n q)
  show ?case
  proof (cases "map_of es n")
    case None
    with "3.prems" obtain u where u: "mkdir_p (Dir []) q = Inr u" and t': "t' = Dir (es @ [(n, u)])"
      by (auto split: sum.splits)
    note IH = "3.IH"(1) [OF None u]
    show ?thesis
    proof (cases p)
      case Nil
      then show ?thesis by (simp add: t')
    next
      case (Cons m p')
      show ?thesis
      proof (cases "m = n")
        case True
        have "stat u p' = (if p' \<noteq> [] \<and> prefix p' q then Some IsDir else stat (Dir []) p')"
          using IH [of p'] by (cases p') auto
        then have "stat u p' = (if prefix p' q then Some IsDir else None)"
          by (cases p') auto
        with True Cons None t' show ?thesis
          by (simp add: stat_Dir_Cons map_of_snoc)
      next
        case False
        with Cons None t' show ?thesis
          by (simp add: stat_Dir_Cons map_of_snoc)
      qed
    qed
  next
    case (Some c)
    with "3.prems" obtain u where u: "mkdir_p c q = Inr u" and t': "t' = Dir (AList.update n u es)"
      by (auto split: sum.splits)
    note IH = "3.IH"(2) [OF Some u]
    show ?thesis
    proof (cases p)
      case Nil
      then show ?thesis by (simp add: t')
    next
      case (Cons m p')
      with Some t' IH [of p'] show ?thesis
        by (auto simp: stat_Dir_Cons update_conv' split: if_splits)
    qed
  qed
qed


lemma touch_stat:
  "touch t q = Inr t' \<Longrightarrow>
   stat t' p = (if p = q \<and> stat t p = None then Some (IsFile []) else stat t p)"
proof (induction t q arbitrary: t' p rule: touch.induct)
  case (1 t)
  then show ?case by (auto simp: stat_Nil split: tree.splits)
next
  case (2 c n q)
  then show ?case by simp
next
  case (3 es n q)
  show ?case
  proof (cases "map_of es n")
    case None
    with "3.prems" have q: "q = []" and t': "t' = Dir (es @ [(n, File [])])"
      by (auto split: if_splits)
    show ?thesis
    proof (cases p)
      case Nil
      then show ?thesis by (simp add: t')
    next
      case (Cons m p')
      with None q t' show ?thesis
        by (cases p') (auto simp: stat_Dir_Cons map_of_snoc)
    qed
  next
    case (Some c)
    with "3.prems" obtain u where u: "touch c q = Inr u"
      and t': "t' = Dir (AList.update n u es)"
      by (auto split: sum.splits)
    note IH = "3.IH" [OF Some u]
    show ?thesis
    proof (cases p)
      case Nil
      then show ?thesis by (simp add: t')
    next
      case (Cons m p')
      with Some t' IH [of p'] show ?thesis
        by (auto simp: stat_Dir_Cons update_conv' split: if_splits)
    qed
  qed
qed

lemma mkdir_p_existing: "stat t q = Some IsDir \<Longrightarrow> mkdir_p t q = Inr t"
proof (induction t q rule: mkdir_p.induct)
  case (1 c q)
  then show ?case by (cases q) auto
next
  case (2 es)
  then show ?case by simp
next
  case (3 es n q)
  then show ?case
    by (auto simp: stat_Dir_Cons update_triv split: option.splits)
qed

lemma touch_existing: "stat t q \<noteq> None \<Longrightarrow> touch t q = Inr t"
proof (induction t q rule: touch.induct)
  case (1 t)
  then show ?case by simp
next
  case (2 c n q)
  then show ?case by simp
next
  case (3 es n q)
  then show ?case
    by (auto simp: stat_Dir_Cons update_triv split: option.splits)
qed

lemma mkdir_p_ok:
  "\<forall>p c. prefix p q \<longrightarrow> stat t p \<noteq> Some (IsFile c) \<Longrightarrow> \<exists>t'. mkdir_p t q = Inr t'"
proof (induction t q rule: mkdir_p.induct)
  case (1 c q)
  from "1.prems" [rule_format, of "[]" c] show ?case by simp
next
  case (2 es)
  then show ?case by simp
next
  case (3 es n q)
  show ?case
  proof (cases "map_of es n")
    case None
    have "\<forall>p c. prefix p q \<longrightarrow> stat (Dir []) p \<noteq> Some (IsFile c)"
    proof (intro allI impI)
      fix p c show "stat (Dir []) p \<noteq> Some (IsFile c)" by (cases p) auto
    qed
    from "3.IH"(1) [OF None this] None show ?thesis by auto
  next
    case (Some u)
    have "\<forall>p c. prefix p q \<longrightarrow> stat u p \<noteq> Some (IsFile c)"
    proof (intro allI impI)
      fix p c assume "prefix p q"
      then have "prefix (n # p) (n # q)" by simp
      with "3.prems" have "stat (Dir es) (n # p) \<noteq> Some (IsFile c)" by blast
      with Some show "stat u p \<noteq> Some (IsFile c)" by (simp add: stat_Dir_Cons)
    qed
    from "3.IH"(2) [OF Some this] Some show ?thesis by auto
  qed
qed

lemma touch_ok: "stat t q = Some IsDir \<Longrightarrow> \<exists>t'. touch t (q @ [n]) = Inr t'"
proof (induction t q rule: mkdir_p.induct)
  case (1 c q)
  then show ?case by (cases q) auto
next
  case (2 es)
  then show ?case by (cases "map_of es n") auto
next
  case (3 es m q)
  then show ?case
    by (cases "map_of es m") (auto simp: stat_Dir_Cons)
qed


subsection \<open>Results, and the loop that creates the directories\<close>

lemma and_then_Inr_iff:
  "and_then r f = (Inr x, w') \<longleftrightarrow> (\<exists>y w1. r = (Inr y, w1) \<and> f y w1 = (Inr x, w'))"
  by (auto simp: and_then_def split: prod.splits sum.splits)

lemma and_then_Inr [simp]: "and_then (Inr y, w1) f = f y w1"
  by (simp add: and_then_def)

lemma and_then_Inl [simp]: "and_then (Inl x, w1) f = (Inl x, w1)"
  by (simp add: and_then_def)

lemma on_fs_Inr_iff:
  "on_fs f w = (Inr u, w') \<longleftrightarrow> (\<exists>t. f (fs w) = Inr t \<and> w' = w\<lparr>fs := t\<rparr>)"
  by (auto simp: on_fs_def split: sum.splits)

lemma and_then_on_fs_Inr_iff:
  "and_then (on_fs f w) g = (Inr x, w') \<longleftrightarrow>
   (\<exists>t. f (fs w) = Inr t \<and> g () (w\<lparr>fs := t\<rparr>) = (Inr x, w'))"
  by (auto simp: and_then_def on_fs_def split: sum.splits)

lemma on_fs_Inr: "f (fs w) = Inr t \<Longrightarrow> on_fs f w = (Inr (), w\<lparr>fs := t\<rparr>)"
  by (simp add: on_fs_def)

lemma on_fs_Inl: "f (fs w) = Inl x \<Longrightarrow> on_fs f w = (Inl x, w)"
  by (simp add: on_fs_def)

lemma mkdir_p_no_file:
  "mkdir_p t q = Inr t' \<Longrightarrow> prefix p q \<Longrightarrow> stat t p \<noteq> Some (IsFile c)"
proof (induction t q arbitrary: t' p rule: mkdir_p.induct)
  case (1 c q)
  then show ?case by simp
next
  case (2 es)
  then show ?case by auto
next
  case (3 es n q)
  show ?case
  proof (cases p)
    case Nil
    then show ?thesis by simp
  next
    case (Cons m p')
    with "3.prems" have m: "m = n" and pre: "prefix p' q" by auto
    show ?thesis
    proof (cases "map_of es n")
      case None
      with Cons m show ?thesis by (simp add: stat_Dir_Cons)
    next
      case (Some u)
      with "3.prems" obtain u' where "mkdir_p u q = Inr u'" by (auto split: sum.splits)
      from "3.IH"(2) [OF Some this pre] Some Cons m show ?thesis
        by (simp add: stat_Dir_Cons)
    qed
  qed
qed

lemma mkdir_p_dir: "mkdir_p t q = Inr t' \<Longrightarrow> stat t' q = Some IsDir"
proof -
  assume a: "mkdir_p t q = Inr t'"
  have "\<And>c. stat t q \<noteq> Some (IsFile c)"
    using mkdir_p_no_file [OF a, of q] by simp
  then have "stat t q = None \<or> stat t q = Some IsDir"
    by (metis entry.exhaust option.exhaust)
  with mkdir_p_stat [OF a, of q] show ?thesis by auto
qed

text \<open>One round of the loop of \<open>create_directory_structure\<close>.\<close>

lemma create_directories_Cons_Inr:
  "create_directories out fw (d # ds) w = (Inr (), w') \<longleftrightarrow>
   (\<exists>t1 t2. mkdir_p (fs w) (out @ d) = Inr t1 \<and>
      (if language fw = ''Python'' then touch t1 (out @ d @ [''__init__.py'']) = Inr t2 else t2 = t1) \<and>
      create_directories out fw ds (w\<lparr>fs := t2\<rparr>) = (Inr (), w'))"
  by (cases "language fw = ''Python''") (simp_all add: Let_def and_then_on_fs_Inr_iff)

lemma create_directories_step:
  assumes "create_directories out fw (d # ds) w = (Inr (), w')"
  obtains t1 t2 where
    "mkdir_p (fs w) (out @ d) = Inr t1"
    "if language fw = ''Python'' then touch t1 (out @ d @ [''__init__.py'']) = Inr t2 else t2 = t1"
    "create_directories out fw ds (w\<lparr>fs := t2\<rparr>) = (Inr (), w')"
  using assms unfolding create_directories_Cons_Inr by blast

lemma touch_keeps:
  "(if b then touch t1 q = Inr t2 else t2 = t1) \<Longrightarrow> stat t1 p \<noteq> None \<Longrightarrow> stat t2 p = stat t1 p"
  using touch_stat [of t1 q t2 p] by (simp split: if_splits)

lemma create_directories_keeps:
  "create_directories out fw ds w = (Inr (), w') \<Longrightarrow> stat (fs w) p \<noteq> None \<Longrightarrow>
   stat (fs w') p = stat (fs w) p"
proof (induction ds arbitrary: w)
  case Nil
  then show ?case by simp
next
  case (Cons d ds)
  from Cons.prems(1) obtain t1 t2 where
    mk: "mkdir_p (fs w) (out @ d) = Inr t1" and
    to: "if language fw = ''Python'' then touch t1 (out @ d @ [''__init__.py'']) = Inr t2 else t2 = t1" and
    rest: "create_directories out fw ds (w\<lparr>fs := t2\<rparr>) = (Inr (), w')"
    by (rule create_directories_step)
  have 1: "stat t1 p = stat (fs w) p"
    using mkdir_p_stat [OF mk, of p] Cons.prems(2) by simp
  have 2: "stat t2 p = stat t1 p"
    using touch_keeps [OF to] 1 Cons.prems(2) by simp
  have "stat (fs w') p = stat (fs (w\<lparr>fs := t2\<rparr>)) p"
    using Cons.IH [OF rest] 1 2 Cons.prems(2) by simp
  with 1 2 show ?case by simp
qed

lemma create_directories_made:
  "create_directories out fw ds w = (Inr (), w') \<Longrightarrow> d \<in> set ds \<Longrightarrow>
   stat (fs w') (out @ d) = Some IsDir \<and>
   (language fw = ''Python'' \<longrightarrow> stat (fs w') (out @ d @ [''__init__.py'']) \<noteq> None)"
proof (induction ds arbitrary: w)
  case Nil
  then show ?case by simp
next
  case (Cons d0 ds)
  from Cons.prems(1) obtain t1 t2 where
    mk: "mkdir_p (fs w) (out @ d0) = Inr t1" and
    to: "if language fw = ''Python'' then touch t1 (out @ d0 @ [''__init__.py'']) = Inr t2 else t2 = t1" and
    rest: "create_directories out fw ds (w\<lparr>fs := t2\<rparr>) = (Inr (), w')"
    by (rule create_directories_step)
  show ?case
  proof (cases "d = d0")
    case True
    have d1: "stat t1 (out @ d0) = Some IsDir" by (rule mkdir_p_dir [OF mk])
    have d2: "stat t2 (out @ d0) = Some IsDir"
      using touch_keeps [OF to, of "out @ d0"] d1 by simp
    have m2: "stat t2 (out @ d0 @ [''__init__.py'']) \<noteq> None" if "language fw = ''Python''"
      using to that touch_stat [of t1 "out @ d0 @ [''__init__.py'']" t2 "out @ d0 @ [''__init__.py'']"]
      by (simp split: if_splits)
    have "stat (fs w') (out @ d0) = Some IsDir"
      using create_directories_keeps [OF rest, of "out @ d0"] d2 by simp
    moreover have "stat (fs w') (out @ d0 @ [''__init__.py'']) \<noteq> None" if "language fw = ''Python''"
      using create_directories_keeps [OF rest, of "out @ d0 @ [''__init__.py'']"] m2 [OF that] by simp
    ultimately show ?thesis using True by simp
  next
    case False
    with Cons.prems(2) have "d \<in> set ds" by simp
    from Cons.IH [OF rest this] show ?thesis .
  qed
qed

lemma create_directories_frame:
  "create_directories out fw ds w = (Inr (), w') \<Longrightarrow>
   stat (fs w) p = None \<Longrightarrow> stat (fs w') p \<noteq> None \<Longrightarrow>
   (stat (fs w') p = Some IsDir \<and> (\<exists>d \<in> set ds. prefix p (out @ d))) \<or>
   (language fw = ''Python'' \<and> stat (fs w') p = Some (IsFile []) \<and>
      (\<exists>d \<in> set ds. p = out @ d @ [''__init__.py'']))"
proof (induction ds arbitrary: w)
  case Nil
  then show ?case by simp
next
  case (Cons d ds)
  from Cons.prems(1) obtain t1 t2 where
    mk: "mkdir_p (fs w) (out @ d) = Inr t1" and
    to: "if language fw = ''Python'' then touch t1 (out @ d @ [''__init__.py'']) = Inr t2 else t2 = t1" and
    rest: "create_directories out fw ds (w\<lparr>fs := t2\<rparr>) = (Inr (), w')"
    by (rule create_directories_step)
  show ?case
  proof (cases "stat t2 p = None")
    case True
    then have "stat (fs (w\<lparr>fs := t2\<rparr>)) p = None" by simp
    from Cons.IH [OF rest this Cons.prems(3)] show ?thesis by auto
  next
    case False
    then have same: "stat (fs w') p = stat t2 p"
      using create_directories_keeps [OF rest, of p] by simp
    have s1: "stat t1 p = (if prefix p (out @ d) then Some IsDir else None)"
      using mkdir_p_stat [OF mk, of p] Cons.prems(2) by simp
    have "(stat t2 p = Some IsDir \<and> prefix p (out @ d)) \<or>
       (language fw = ''Python'' \<and> stat t2 p = Some (IsFile []) \<and> p = out @ d @ [''__init__.py''])"
    proof (cases "prefix p (out @ d)")
      case True
      with s1 have "stat t1 p = Some IsDir" by simp
      then have "stat t2 p = Some IsDir"
        using touch_keeps [OF to, of p] by simp
      with True show ?thesis by simp
    next
      case np: False
      with s1 have n1: "stat t1 p = None" by simp
      show ?thesis
      proof (cases "language fw = ''Python''")
        case True
        with to have "touch t1 (out @ d @ [''__init__.py'']) = Inr t2" by simp
        from touch_stat [OF this, of p] n1 False True show ?thesis
          by (simp split: if_splits)
      next
        case nopy: False
        with to have "t2 = t1" by simp
        with n1 False show ?thesis by simp
      qed
    qed
    with same show ?thesis by auto
  qed
qed

lemma create_directories_fixpoint:
  "\<forall>d \<in> set ds. stat (fs w) (out @ d) = Some IsDir \<and>
      (language fw = ''Python'' \<longrightarrow> stat (fs w) (out @ d @ [''__init__.py'']) \<noteq> None) \<Longrightarrow>
   create_directories out fw ds w = (Inr (), w)"
proof (induction ds)
  case Nil
  then show ?case by simp
next
  case (Cons d ds)
  then have mk: "mkdir_p (fs w) (out @ d) = Inr (fs w)"
    by (simp add: mkdir_p_existing)
  from Cons.prems have to: "language fw = ''Python'' \<Longrightarrow> touch (fs w) (out @ d @ [''__init__.py'']) = Inr (fs w)"
    by (simp add: touch_existing)
  from Cons have rest: "create_directories out fw ds w = (Inr (), w)" by simp
  show ?case
    using mk to rest by (simp add: Let_def on_fs_def)
qed

lemma create_directories_ok:
  "\<forall>d \<in> set ds. ''__init__.py'' \<notin> set d \<Longrightarrow>
   \<forall>d \<in> set ds. \<forall>p c. prefix p (out @ d) \<longrightarrow> stat (fs w) p \<noteq> Some (IsFile c) \<Longrightarrow>
   \<exists>w'. create_directories out fw ds w = (Inr (), w')"
proof (induction ds arbitrary: w)
  case Nil
  then show ?case by simp
next
  case (Cons d ds)
  from Cons.prems(2) have "\<forall>p c. prefix p (out @ d) \<longrightarrow> stat (fs w) p \<noteq> Some (IsFile c)" by simp
  from mkdir_p_ok [OF this] obtain t1 where mk: "mkdir_p (fs w) (out @ d) = Inr t1" by blast
  have d1: "stat t1 (out @ d) = Some IsDir" by (rule mkdir_p_dir [OF mk])
  obtain t2 where to: "if language fw = ''Python'' then touch t1 (out @ d @ [''__init__.py'']) = Inr t2 else t2 = t1"
    using touch_ok [OF d1, of "''__init__.py''"] by (cases "language fw = ''Python''") auto
  have s1: "\<And>p. stat t1 p = (if stat (fs w) p = None \<and> prefix p (out @ d) then Some IsDir else stat (fs w) p)"
    by (rule mkdir_p_stat [OF mk])
  have s2: "\<And>p. stat t2 p = (if language fw = ''Python'' \<and> p = out @ d @ [''__init__.py''] \<and> stat t1 p = None
                              then Some (IsFile []) else stat t1 p)"
    using to touch_stat by (auto split: if_splits)
  have pre: "\<forall>d' \<in> set ds. \<forall>p c. prefix p (out @ d') \<longrightarrow> stat (fs (w\<lparr>fs := t2\<rparr>)) p \<noteq> Some (IsFile c)"
  proof (intro ballI allI impI)
    fix d' p c assume d': "d' \<in> set ds" and pr: "prefix p (out @ d')"
    have nf: "stat (fs w) p \<noteq> Some (IsFile c)" using Cons.prems(2) d' pr by simp
    have "p \<noteq> out @ d @ [''__init__.py'']"
    proof
      assume "p = out @ d @ [''__init__.py'']"
      with pr have "prefix (d @ [''__init__.py'']) d'" by simp
      then have "''__init__.py'' \<in> set d'" by (auto simp: prefix_def)
      with Cons.prems(1) d' show False by simp
    qed
    with nf show "stat (fs (w\<lparr>fs := t2\<rparr>)) p \<noteq> Some (IsFile c)"
      by (simp add: s1 s2)
  qed
  from Cons.prems(1) have "\<forall>d \<in> set ds. ''__init__.py'' \<notin> set d" by simp
  from Cons.IH [OF this pre] obtain w' where "create_directories out fw ds (w\<lparr>fs := t2\<rparr>) = (Inr (), w')"
    by blast
  with mk to show ?case
    unfolding create_directories_Cons_Inr by blast
qed

lemma directories_no_marker: "\<forall>d \<in> set (directories fw). ''__init__.py'' \<notin> set d"
  by (simp add: directories_def)

subsection \<open>The directory skeleton\<close>

lemma stat_prefix_dir:
  "stat t q \<noteq> None \<Longrightarrow> strict_prefix p q \<Longrightarrow> stat t p = Some IsDir"
proof (induction t q arbitrary: p rule: mkdir_p.induct)
  case (1 c q)
  then show ?case by (cases q) auto
next
  case (2 es)
  then show ?case by simp
next
  case (3 es n q)
  show ?case
  proof (cases p)
    case Nil
    then show ?thesis by simp
  next
    case (Cons m p')
    with "3.prems"(2) have m: "m = n" and sp: "strict_prefix p' q" by auto
    from "3.prems"(1) obtain u where u: "map_of es n = Some u" and "stat u q \<noteq> None"
      by (auto simp: stat_Dir_Cons split: option.splits)
    from "3.IH"(2) [OF u this(2) sp] u Cons m show ?thesis
      by (simp add: stat_Dir_Cons)
  qed
qed

lemma fs_print_success [simp]: "fs (print_success text w) = fs w"
  by (simp add: print_success_def)

lemma create_directory_structure_Inr_iff:
  "create_directory_structure out fw w = (Inr (), w') \<longleftrightarrow>
   (\<exists>w1. create_directories out fw (directories fw) w = (Inr (), w1) \<and>
      w' = print_success ''Created directory structure'' w1)"
  by (auto simp: create_directory_structure_def and_then_Inr_iff)

text \<open>
  Claim C8. \<open>create_directory_structure\<close> works on the fixed list chosen by the language of
  the configuration: the eight directories for \<open>Python\<close>, the seven for \<open>TypeScript\<close>, the
  four of the fallback otherwise. When no regular file lies on the path of one of them, the
  run succeeds; afterwards every listed directory is a directory, everything that existed
  before is as it was, and everything new is either a directory on the path of a listed
  directory or, for \<open>Python\<close> only, an empty marker file \<open>__init__.py\<close> in a listed directory
  (so no marker file is made for the other languages). For \<open>Python\<close> every listed directory
  has its marker, empty when it did not exist before.
\<close>

theorem create_directory_structure_exact:
  assumes "\<forall>d \<in> set (directories fw). \<forall>p c.
             prefix p (output_dir @ d) \<longrightarrow> stat (fs w) p \<noteq> Some (IsFile c)"
  shows "\<exists>w'. create_directory_structure output_dir fw w = (Inr (), w') \<and>
     (\<forall>d \<in> set (directories fw). stat (fs w') (output_dir @ d) = Some IsDir) \<and>
     (\<forall>p. stat (fs w) p \<noteq> None \<longrightarrow> stat (fs w') p = stat (fs w) p) \<and>
     (\<forall>p. stat (fs w) p = None \<and> stat (fs w') p \<noteq> None \<longrightarrow>
        (stat (fs w') p = Some IsDir \<and> (\<exists>d \<in> set (directories fw). prefix p (output_dir @ d))) \<or>
        (language fw = ''Python'' \<and> stat (fs w') p = Some (IsFile []) \<and>
           (\<exists>d \<in> set (directories fw). p = output_dir @ d @ [''__init__.py'']))) \<and>
     (language fw = ''Python'' \<longrightarrow>
        (\<forall>d \<in> set (directories fw).
           stat (fs w') (output_dir @ d @ [''__init__.py'']) =
             (if stat (fs w) (output_dir @ d @ [''__init__.py'']) = None then Some (IsFile [])
              else stat (fs w) (output_dir @ d @ [''__init__.py''])))) \<and>
     directories fw =
       (if language fw = ''Python'' then
          [[''src'', ''services''], [''src'', ''config''], [''src'', ''operations''],
           [''src'', ''utilities''], [''tests'', ''services''], [''tests'', ''config''],
           [''tests'', ''operations''], [''tests'', ''utilities'']]
        else if language fw = ''TypeScript'' then
          [[''src'', ''services''], [''src'', ''config''], [''src'', ''utils''], [''src'', ''types''],
           [''tests'', ''services''], [''tests'', ''config''], [''tests'', ''utils'']]
        else
          [[''src'', ''services''], [''src'', ''config''], [''tests'', ''services''],
           [''tests'', ''config'']])"
proof -
  from create_directories_ok [OF directories_no_marker assms]
  obtain w1 where run: "create_directories output_dir fw (directories fw) w = (Inr (), w1)"
    by blast
  let ?w' = "print_success ''Created directory structure'' w1"
  have r: "create_directory_structure output_dir fw w = (Inr (), ?w')"
    using run by (simp add: create_directory_structure_Inr_iff)
  have made: "\<forall>d \<in> set (directories fw). stat (fs ?w') (output_dir @ d) = Some IsDir"
    using create_directories_made [OF run] by simp
  have keeps: "\<forall>p. stat (fs w) p \<noteq> None \<longrightarrow> stat (fs ?w') p = stat (fs w) p"
    using create_directories_keeps [OF run] by simp
  have frame: "\<forall>p. stat (fs w) p = None \<and> stat (fs ?w') p \<noteq> None \<longrightarrow>
        (stat (fs ?w') p = Some IsDir \<and> (\<exists>d \<in> set (directories fw). prefix p (output_dir @ d))) \<or>
        (language fw = ''Python'' \<and> stat (fs ?w') p = Some (IsFile []) \<and>
           (\<exists>d \<in> set (directories fw). p = output_dir @ d @ [''__init__.py'']))"
    using create_directories_frame [OF run] by simp
  have marker: "language fw = ''Python'' \<longrightarrow>
        (\<forall>d \<in> set (directories fw).
           stat (fs ?w') (output_dir @ d @ [''__init__.py'']) =
             (if stat (fs w) (output_dir @ d @ [''__init__.py'']) = None then Some (IsFile [])
              else stat (fs w) (output_dir @ d @ [''__init__.py''])))"
  proof (intro impI ballI)
    fix d assume py: "language fw = ''Python''" and d: "d \<in> set (directories fw)"
    let ?m = "output_dir @ d @ [''__init__.py'']"
    show "stat (fs ?w') ?m = (if stat (fs w) ?m = None then Some (IsFile []) else stat (fs w) ?m)"
    proof (cases "stat (fs w) ?m = None")
      case False
      with keeps show ?thesis by simp
    next
      case True
      have ne: "stat (fs ?w') ?m \<noteq> None"
        using create_directories_made [OF run d] py by simp
      have "\<not> (\<exists>d' \<in> set (directories fw). prefix ?m (output_dir @ d'))"
      proof
        assume "\<exists>d' \<in> set (directories fw). prefix ?m (output_dir @ d')"
        then obtain d' where d': "d' \<in> set (directories fw)" and "prefix (d @ [''__init__.py'']) d'"
          by auto
        then have "''__init__.py'' \<in> set d'" by (auto simp: prefix_def)
        with directories_no_marker d' show False by blast
      qed
      with frame True ne have "stat (fs ?w') ?m = Some (IsFile [])" by blast
      with True show ?thesis by simp
    qed
  qed
  have lists: "directories fw =
       (if language fw = ''Python'' then
          [[''src'', ''services''], [''src'', ''config''], [''src'', ''operations''],
           [''src'', ''utilities''], [''tests'', ''services''], [''tests'', ''config''],
           [''tests'', ''operations''], [''tests'', ''utilities'']]
        else if language fw = ''TypeScript'' then
          [[''src'', ''services''], [''src'', ''config''], [''src'', ''utils''], [''src'', ''types''],
           [''tests'', ''services''], [''tests'', ''config''], [''tests'', ''utils'']]
        else
          [[''src'', ''services''], [''src'', ''config''], [''tests'', ''services''],
           [''tests'', ''config'']])"
    by (simp add: directories_def)
  from r made keeps frame marker lists show ?thesis by blast
qed

lemma stat_empty_root: "stat (Dir []) p \<noteq> Some (IsFile c)"
  by (cases p) auto

theorem create_directory_structure_exact_witness:
  "\<exists>w'. create_directory_structure [''out''] (the (map_of FRAMEWORKS ''python-fastapi''))
           \<lparr>fs = Dir [], stdin = [], stdout = []\<rparr> = (Inr (), w') \<and>
      stat (fs w') [''out'', ''tests'', ''utilities''] = Some IsDir \<and>
      stat (fs w') [''out'', ''tests'', ''utilities'', ''__init__.py''] = Some (IsFile []) \<and>
      stat (fs w') [''out'', ''src'', ''utils''] = None"
proof -
  let ?fw = "the (map_of FRAMEWORKS ''python-fastapi'')"
  let ?w = "\<lparr>fs = Dir [], stdin = [], stdout = []\<rparr>"
  have py: "language ?fw = ''Python''" by (simp add: FRAMEWORKS_def)
  have pre: "\<forall>d \<in> set (directories ?fw). \<forall>p c.
             prefix p ([''out''] @ d) \<longrightarrow> stat (fs ?w) p \<noteq> Some (IsFile c)"
    by (simp add: stat_empty_root)
  from create_directory_structure_exact [OF pre] obtain w' where
    r: "create_directory_structure [''out''] ?fw ?w = (Inr (), w')" and
    made: "\<forall>d \<in> set (directories ?fw). stat (fs w') ([''out''] @ d) = Some IsDir" and
    frame: "\<forall>p. stat (fs ?w) p = None \<and> stat (fs w') p \<noteq> None \<longrightarrow>
        (stat (fs w') p = Some IsDir \<and> (\<exists>d \<in> set (directories ?fw). prefix p ([''out''] @ d))) \<or>
        (language ?fw = ''Python'' \<and> stat (fs w') p = Some (IsFile []) \<and>
           (\<exists>d \<in> set (directories ?fw). p = [''out''] @ d @ [''__init__.py'']))" and
    marker: "language ?fw = ''Python'' \<longrightarrow>
        (\<forall>d \<in> set (directories ?fw).
           stat (fs w') ([''out''] @ d @ [''__init__.py'']) =
             (if stat (fs ?w) ([''out''] @ d @ [''__init__.py'']) = None then Some (IsFile [])
              else stat (fs ?w) ([''out''] @ d @ [''__init__.py''])))"
    by blast
  have dirs: "directories ?fw =
          [[''src'', ''services''], [''src'', ''config''], [''src'', ''operations''],
           [''src'', ''utilities''], [''tests'', ''services''], [''tests'', ''config''],
           [''tests'', ''operations''], [''tests'', ''utilities'']]"
    using py by (simp add: directories_def)
  have 1: "stat (fs w') [''out'', ''tests'', ''utilities''] = Some IsDir"
    using made by (simp add: dirs)
  have 2: "stat (fs w') [''out'', ''tests'', ''utilities'', ''__init__.py''] = Some (IsFile [])"
    using marker py by (simp add: dirs)
  have 3: "stat (fs w') [''out'', ''src'', ''utils''] = None"
  proof (rule ccontr)
    assume "stat (fs w') [''out'', ''src'', ''utils''] \<noteq> None"
    with frame [rule_format, of "[''out'', ''src'', ''utils'']"] show False
      by (simp add: dirs)
  qed
  from r 1 2 3 show ?thesis by blast
qed

text \<open>
  Claim C9. \<open>create_directory_structure\<close> is idempotent: after a run that succeeded, a
  second run on the same output directory with the same configuration succeeds and leaves
  the file tree as the first run left it. Directories that exist already are no error.
\<close>

theorem create_directory_structure_idempotent:
  "(create_directory_structure output_dir fw w = (Inr (), w1) \<longrightarrow>
      (\<exists>w2. create_directory_structure output_dir fw w1 = (Inr (), w2) \<and> fs w2 = fs w1)) \<and>
   ((\<forall>d \<in> set (directories fw). stat (fs w) (output_dir @ d) = Some IsDir) \<longrightarrow>
      (\<exists>w'. create_directory_structure output_dir fw w = (Inr (), w')))"
proof (intro conjI impI)
  assume "create_directory_structure output_dir fw w = (Inr (), w1)"
  then obtain v where run: "create_directories output_dir fw (directories fw) w = (Inr (), v)"
    and w1: "w1 = print_success ''Created directory structure'' v"
    unfolding create_directory_structure_Inr_iff by blast
  have "\<forall>d \<in> set (directories fw). stat (fs w1) (output_dir @ d) = Some IsDir \<and>
      (language fw = ''Python'' \<longrightarrow> stat (fs w1) (output_dir @ d @ [''__init__.py'']) \<noteq> None)"
    using create_directories_made [OF run] by (simp add: w1)
  then have "create_directories output_dir fw (directories fw) w1 = (Inr (), w1)"
    by (rule create_directories_fixpoint)
  then show "\<exists>w2. create_directory_structure output_dir fw w1 = (Inr (), w2) \<and> fs w2 = fs w1"
    by (simp add: create_directory_structure_Inr_iff)
next
  assume ex: "\<forall>d \<in> set (directories fw). stat (fs w) (output_dir @ d) = Some IsDir"
  have "\<forall>d \<in> set (directories fw). \<forall>p c.
          prefix p (output_dir @ d) \<longrightarrow> stat (fs w) p \<noteq> Some (IsFile c)"
  proof (intro ballI allI impI)
    fix d p c assume d: "d \<in> set (directories fw)" and pr: "prefix p (output_dir @ d)"
    from ex d have here: "stat (fs w) (output_dir @ d) = Some IsDir" by simp
    show "stat (fs w) p \<noteq> Some (IsFile c)"
    proof (cases "p = output_dir @ d")
      case True
      with here show ?thesis by simp
    next
      case False
      with pr have "strict_prefix p (output_dir @ d)" by (simp add: strict_prefix_def)
      from stat_prefix_dir [OF _ this, of "fs w"] here show ?thesis by simp
    qed
  qed
  from create_directories_ok [OF directories_no_marker this]
  show "\<exists>w'. create_directory_structure output_dir fw w = (Inr (), w')"
    by (auto simp: create_directory_structure_Inr_iff)
qed

theorem create_directory_structure_idempotent_witness:
  "\<exists>w1 w2.
     create_directory_structure [''out''] (the (map_of FRAMEWORKS ''typescript-nodejs''))
       \<lparr>fs = Dir [], stdin = [], stdout = []\<rparr> = (Inr (), w1) \<and>
     create_directory_structure [''out''] (the (map_of FRAMEWORKS ''typescript-nodejs'')) w1 =
       (Inr (), w2) \<and>
     fs w2 = fs w1"
proof -
  let ?fw = "the (map_of FRAMEWORKS ''typescript-nodejs'')"
  let ?w = "\<lparr>fs = Dir [], stdin = [], stdout = []\<rparr>"
  have "\<forall>d \<in> set (directories ?fw). \<forall>p c.
          prefix p ([''out''] @ d) \<longrightarrow> stat (fs ?w) p \<noteq> Some (IsFile c)"
    by (simp add: stat_empty_root)
  from create_directories_ok [where fw = ?fw, OF directories_no_marker this]
  obtain v where "create_directories [''out''] ?fw (directories ?fw) ?w = (Inr (), v)"
    by blast
  then obtain w1 where "create_directory_structure [''out''] ?fw ?w = (Inr (), w1)"
    by (simp add: create_directory_structure_Inr_iff)
  with create_directory_structure_idempotent [of "[''out'']" ?fw ?w w1]
  show ?thesis by blast
qed

subsection \<open>Prompting leaves the file system alone\<close>

lemma fs_print [simp]:
  "fs (print_header x w) = fs w" "fs (print_error x w) = fs w"
  "fs (print_info x w) = fs w" "fs (print_warning x w) = fs w"
  by (simp_all add: print_header_def print_error_def print_info_def print_warning_def)

lemma stdin_print [simp]:
  "stdin (print_header x w) = stdin w" "stdin (print_error x w) = stdin w"
  "stdin (print_info x w) = stdin w" "stdin (print_warning x w) = stdin w"
  "stdin (print_success x w) = stdin w"
  by (simp_all add: print_header_def print_error_def print_info_def print_warning_def
        print_success_def)

lemma fs_foldl_keeps: "(\<And>v x. fs (f v x) = fs v) \<Longrightarrow> fs (foldl f w xs) = fs w"
  by (induction xs arbitrary: w) simp_all

lemma fs_list_frameworks [simp]: "fs (list_frameworks w) = fs w"
  unfolding list_frameworks_def
  by (subst fs_foldl_keeps) (auto simp: split_def)

lemma fs_input: "input prompt w = (r, w') \<Longrightarrow> fs w' = fs w"
  by (auto simp: input_def split: list.splits stdin_event.splits)

lemma fs_get_user_input: "get_user_input prompt d w = (r, w') \<Longrightarrow> fs w' = fs w"
  by (auto simp: get_user_input_def and_then_def Let_def split: prod.splits sum.splits
        dest: fs_input)

lemma fs_select_framework_loop: "select_framework_loop e w = (r, w') \<Longrightarrow> fs w' = fs w"
proof (induction e w arbitrary: r w' rule: select_framework_loop.induct)
  case (1 e w)
  obtain r0 w0 where g: "get_user_input (''Select framework (1-'' @ str_nat (length FRAMEWORKS) @ '')'')
             (Some ''1'') w = (r0, w0)" by (cases "get_user_input (''Select framework (1-'' @ str_nat (length FRAMEWORKS) @ '')'')
             (Some ''1'') w")
  then have f0: "fs w0 = fs w" by (rule fs_get_user_input)
  show ?case
  proof (cases r0)
    case (Inl x)
    with "1.prems" g f0 show ?thesis
      by (subst (asm) select_framework_loop.simps) auto
  next
    case (Inr choice)
    show ?thesis
    proof (cases "py_int e choice")
      case None
      from "1.prems" g Inr None
      have "select_framework_loop e (print_error ''Please enter a valid number'' w0) = (r, w')"
        by (subst (asm) select_framework_loop.simps) simp
      from "1.IH"(1) [OF g [symmetric] Inr None this] f0 show ?thesis by simp
    next
      case (Some i)
      show ?thesis
      proof (cases "0 \<le> i - 1 \<and> i - 1 < int (length FRAMEWORKS)")
        case True
        with "1.prems" g Inr Some f0 show ?thesis
          by (subst (asm) select_framework_loop.simps) (auto simp: Let_def print_success_def)
      next
        case False
        with "1.prems" g Inr Some
        have "select_framework_loop e (print_error (''Please enter a number between 1 and '' @
                                      str_nat (length FRAMEWORKS)) w0) = (r, w')"
          by (subst (asm) select_framework_loop.simps) (auto simp: Let_def split: if_splits)
        from "1.IH"(2) [OF g [symmetric] Inr Some refl False this] f0 show ?thesis by simp
      qed
    qed
  qed
qed

lemma fs_and_then:
  "(\<And>r1 w1. a = (r1, w1) \<Longrightarrow> fs w1 = fs w) \<Longrightarrow>
   (\<And>x w1 r2 w2. f x w1 = (r2, w2) \<Longrightarrow> fs w2 = fs w1) \<Longrightarrow>
   and_then a f = (r, w') \<Longrightarrow> fs w' = fs w"
  by (cases a) (auto simp: and_then_def split: sum.splits)

lemma fs_get_project_config: "get_project_config e fk nm w = (r, w') \<Longrightarrow> fs w' = fs w"
  unfolding get_project_config_def
  apply (erule fs_and_then [rotated 2])
   apply (auto simp: select_framework_def split: option.splits if_splits dest!: fs_select_framework_loop)[1]
  apply (erule fs_and_then [rotated 2])
   apply (auto split: option.splits if_splits dest!: fs_get_user_input)[1]
  apply (erule fs_and_then [rotated 2])
   apply (auto dest!: fs_get_user_input)[1]
  apply (erule fs_and_then [rotated 2])
   apply (auto dest!: fs_get_user_input)[1]
  apply (erule fs_and_then [rotated 2])
   apply (auto dest!: fs_get_user_input)[1]
  apply (erule fs_and_then [rotated 2])
   apply (auto dest!: fs_get_user_input)[1]
  apply simp
  done

subsection \<open>Declining to overwrite\<close>

lemma stdout_print [simp]:
  "stdout (print_header x w) = stdout w @ [Header x]"
  "stdout (print_error x w) = stdout w @ [Error x]"
  "stdout (print_info x w) = stdout w @ [Info x]"
  "stdout (print_warning x w) = stdout w @ [Warning x]"
  "stdout (print_success x w) = stdout w @ [Success x]"
  by (simp_all add: print_header_def print_error_def print_info_def print_warning_def
        print_success_def)

lemma lower_strip_decline:
  "lower (strip l) \<noteq> ''y'' \<Longrightarrow> lower (if strip l \<noteq> [] then strip l else ''n'') \<noteq> ''y''"
  by (auto simp: lower_def lower_char_def)

text \<open>
  Claim C2, as amended. When the output directory exists and is not empty and the answer to
  the confirmation, with the whitespace around it removed, is not \<open>y\<close> (in either case; an
  empty answer counts as \<open>n\<close>), \<open>generate_project\<close> prints the warning and returns without
  writing anything, and the process ends with exit status 0.
\<close>

theorem decline_overwrite_no_write:
  assumes "\<not> arg_list a"
    and "get_project_config e (arg_framework a) (arg_name a)
           (print_header ''Project Template Generator'' w) = (Inr config, w1)"
    and "lookup (fs w) (arg_output a) = Some (Dir es)" and "es \<noteq> []"
    and "stdin w1 = Line l # rest" and "lower (strip l) \<noteq> ''y''"
  shows "\<exists>w'. generate_project e (arg_output a) (arg_framework a) (arg_name a)
                 (\<not> arg_base_only a) w = (Inr (), w') \<and>
              fs w' = fs w \<and>
              last (stdout w') = Warning ''Generation cancelled'' \<and>
              main e a w = (0, w')"
proof -
  let ?w2 = "print_info (''Output directory: '' @ path_str (arg_output a) @ ''\<newline>'')
               (print_info (''\<newline>Generating '' @ display_name (framework_config config) @
                  '' project...'') w1)"
  have f1: "fs w1 = fs w"
    using fs_get_project_config [OF assms(2)] by simp
  have ne: "exists_nonempty (arg_output a) ?w2 = (Inr True, ?w2)"
    using assms(3,4) f1 by (simp add: exists_nonempty_def)
  have s2: "stdin ?w2 = Line l # rest" using assms(5) by simp
  obtain w3 where ask: "get_user_input
       (''Directory '' @ path_str (arg_output a) @ '' is not empty. Continue? (y/N)'')
       (Some ''n'') ?w2 = (Inr (if strip l \<noteq> [] then strip l else ''n''), w3)"
    and f3: "fs w3 = fs ?w2"
    using get_user_input_Line [OF s2] by simp
  let ?w' = "print_warning ''Generation cancelled'' w3"
  have gp: "generate_project e (arg_output a) (arg_framework a) (arg_name a)
                 (\<not> arg_base_only a) w = (Inr (), ?w')"
    using assms(2) ne ask lower_strip_decline [OF assms(6)]
    by (simp add: generate_project_def Let_def)
  have "fs ?w' = fs w" using f3 f1 by simp
  moreover have "last (stdout ?w') = Warning ''Generation cancelled''" by simp
  moreover have "main e a w = (0, ?w')" using assms(1) gp by (simp add: main_def)
  ultimately show ?thesis using gp by blast
qed

theorem decline_overwrite_no_write_witness:
  "\<exists>w'. generate_project
          \<lparr>templates_dir = [''templates''], templates = Dir [],
           now = \<lparr>year = 2026, month = 1, day = 1\<rparr>, py_int = (\<lambda>s. None)\<rparr>
          [''out''] (Some ''python-fastapi'') (Some ''demo'') True
          \<lparr>fs = Dir [(''out'', Dir [(''old.txt'', File ''x'')])],
           stdin = [Line [], Line [], Line [], Line [], Line ''No''], stdout = []\<rparr> = (Inr (), w') \<and>
        fs w' = Dir [(''out'', Dir [(''old.txt'', File ''x'')])] \<and>
        last (stdout w') = Warning ''Generation cancelled''"
proof -
  let ?e = "\<lparr>templates_dir = [''templates''], templates = Dir [],
             now = \<lparr>year = 2026, month = 1, day = 1\<rparr>, py_int = (\<lambda>s. None)\<rparr>"
  let ?a = "\<lparr>arg_framework = Some ''python-fastapi'', arg_name = Some ''demo'',
             arg_output = [''out''], arg_base_only = False, arg_list = False\<rparr>"
  let ?w = "\<lparr>fs = Dir [(''out'', Dir [(''old.txt'', File ''x'')])],
             stdin = [Line [], Line [], Line [], Line [], Line ''No''], stdout = []\<rparr>"
  have "\<exists>config w1. get_project_config ?e (arg_framework ?a) (arg_name ?a)
           (print_header ''Project Template Generator'' ?w) = (Inr config, w1) \<and>
           stdin w1 = Line ''No'' # []"
    by (simp add: get_project_config_def FRAMEWORKS_def get_user_input_Line print_header_def)
  then obtain config w1 where
    1: "get_project_config ?e (arg_framework ?a) (arg_name ?a)
           (print_header ''Project Template Generator'' ?w) = (Inr config, w1)" and
    2: "stdin w1 = Line ''No'' # []"
    by blast
  have 3: "\<not> arg_list ?a" by simp
  have 4: "lookup (fs ?w) (arg_output ?a) = Some (Dir [(''old.txt'', File ''x'')])" by simp
  have 5: "[(''old.txt'', File ''x'')] \<noteq> []" by simp
  have "strip ''No'' = ''No''" by code_simp
  then have 6: "lower (strip ''No'') \<noteq> ''y''"
    by (simp add: lower_def lower_char_def)
  from decline_overwrite_no_write [OF 3 1 4 5 2 6] obtain w' where
    "generate_project ?e (arg_output ?a) (arg_framework ?a) (arg_name ?a) (\<not> arg_base_only ?a) ?w =
       (Inr (), w')"
    "fs w' = fs ?w" "last (stdout w') = Warning ''Generation cancelled''"
    by blast
  then show ?thesis by (intro exI [of _ w']) simp
qed

text \<open>
  The claim as stated fails: here the directory \<open>out\<close> holds a file and the answer is \<open>n\<close>;
  the run is cancelled and the exit status is 0, not 1.
\<close>

theorem decline_exit_status_counterexample:
  "(let r = main \<lparr>templates_dir = [''templates''], templates = Dir [],
                  now = \<lparr>year = 2026, month = 1, day = 1\<rparr>, py_int = (\<lambda>s. None)\<rparr>
                 \<lparr>arg_framework = Some ''python-fastapi'', arg_name = Some ''demo'',
                  arg_output = [''out''], arg_base_only = False, arg_list = False\<rparr>
                 \<lparr>fs = Dir [(''out'', Dir [(''old.txt'', File ''x'')])],
                  stdin = [Line [], Line [], Line [], Line [], Line ''n''], stdout = []\<rparr>
    in fst r = 0 \<and> fst r \<noteq> 1 \<and> last (stdout (snd r)) = Warning ''Generation cancelled'')"
proof -
  have n: "strip ''n'' = ''n''" by code_simp
  show ?thesis
    by (simp add: main_def generate_project_def get_project_config_def FRAMEWORKS_def
          get_user_input_Line exists_nonempty_def Let_def lower_def lower_char_def
          n print_header_def print_info_def print_warning_def)
qed

subsection \<open>Falling back to the base template\<close>



lemma stdout_on_fs: "on_fs f w = (r, w') \<Longrightarrow> stdout w' = stdout w"
  by (auto simp: on_fs_def split: sum.splits)








subsection \<open>Tokens\<close>

lemma token_not_Nil [simp]: "token k \<noteq> []"
  by (simp add: token_def)

lemma token_inject [simp]: "token k = token n \<longleftrightarrow> k = n"
  by (simp add: token_def)

lemma length_token: "length (token k) = length k + 4"
  by (simp add: token_def)

lemma no_match_other: "c \<noteq> CHR ''{'' \<Longrightarrow> \<not> prefix (token k) (c # xs)"
  by (simp add: token_def)

lemma no_match_single: "c \<noteq> CHR ''{'' \<Longrightarrow> \<not> prefix (token k) (d # c # xs)"
  by (simp add: token_def)

lemma prefix_names:
  "brace_free k \<Longrightarrow> brace_free n \<Longrightarrow> prefix (k @ CHR ''}'' # a) (n @ CHR ''}'' # b) \<Longrightarrow> k = n"
proof (induction k arbitrary: n)
  case Nil
  then show ?case by (cases n) (auto simp: brace_free_def)
next
  case (Cons c k)
  then show ?case by (cases n) (auto simp: brace_free_def)
qed

lemma match_token_iff:
  "brace_free k \<Longrightarrow> brace_free n \<Longrightarrow> prefix (token k) (token n @ rest) \<longleftrightarrow> k = n"
proof
  assume bf: "brace_free k" "brace_free n" and "prefix (token k) (token n @ rest)"
  then have "prefix (k @ CHR ''}'' # ''}'') (n @ CHR ''}'' # (''}'' @ rest))"
    by (simp add: token_def)
  with bf show "k = n" by (rule prefix_names)
next
  assume "k = n"
  then show "prefix (token k) (token n @ rest)" by simp
qed

subsection \<open>Replacing a token in a template\<close>


lemma hd_name_tail: "brace_free n \<Longrightarrow> \<exists>c xs. n @ ''}}'' @ rest = c # xs \<and> c \<noteq> CHR ''{''"
  by (cases n) (auto simp: brace_free_def)







lemma replace_all_Nil [simp]: "replace_all [] s = s"
  by (simp add: replace_all_def)



subsection \<open>The single pass on a template\<close>





lemma spec_substitute_Nil [simp]: "spec_substitute reps [] = []"
  by (subst spec_substitute.simps) simp




subsection \<open>The table of \<open>replace_variables\<close>\<close>


lemma open_free_append [simp]: "open_free (a @ b) \<longleftrightarrow> open_free a \<and> open_free b"
  by (auto simp: open_free_def)







subsection \<open>Order of the replacements\<close>




subsection \<open>No token syntax without an opening brace\<close>



subsection \<open>Occurrences of a token in a template\<close>

lemma occurrences_open_free:
  "open_free s \<Longrightarrow> occurrences (token k) (s @ rest) = occurrences (token k) rest"
proof (induction s)
  case Nil
  then show ?case by simp
next
  case (Cons c s)
  then have c: "c \<noteq> CHR ''{''" and s: "open_free s" by (auto simp: open_free_def)
  from Cons.IH [OF s] no_match_other [OF c, of k "s @ rest"] show ?case by simp
qed

lemma occurrences_token:
  assumes k: "brace_free k" and n: "brace_free n"
  shows "occurrences (token k) (token n @ rest) =
         (if n = k then 1 else 0) + occurrences (token k) rest"
proof -
  obtain c xs where cx: "n @ ''}}'' @ rest = c # xs" and c: "c \<noteq> CHR ''{''"
    using hd_name_tail [OF n] by blast
  have t: "token n @ rest = CHR ''{'' # CHR ''{'' # (n @ ''}}'' @ rest)"
    by (simp add: token_def)
  have 0: "prefix (token k) (CHR ''{'' # CHR ''{'' # (n @ ''}}'' @ rest)) \<longleftrightarrow> k = n"
    using match_token_iff [OF k n, of rest] by (simp add: t)
  have 1: "\<not> prefix (token k) (CHR ''{'' # (n @ ''}}'' @ rest))"
    unfolding cx by (rule no_match_single [OF c])
  have of: "open_free (n @ ''}}'')" using n by (simp add: open_free_def brace_free_def)
  have 2: "occurrences (token k) (n @ ''}}'' @ rest) = occurrences (token k) rest"
    using occurrences_open_free [OF of, of k rest] by simp
  show ?thesis
    unfolding t using 0 1 2 by auto
qed

lemma occurrences_render:
  "well_formed ps \<Longrightarrow> brace_free k \<Longrightarrow>
   occurrences (token k) (render ps) = count_list (tokens_of ps) (token k)"
proof (induction ps rule: render.induct)
  case 1
  then show ?case by simp
next
  case (2 s ps)
  then show ?case by (simp add: occurrences_open_free)
next
  case (3 n ps)
  then show ?case by (auto simp: occurrences_token)
qed

subsection \<open>The entries that \<open>rglob\<close> lists\<close>


lemma map_of_distinct_iff: "distinct (map fst es) \<Longrightarrow> map_of es m = Some t \<longleftrightarrow> (m, t) \<in> set es"
  by (auto dest: map_of_SomeD)

lemma in_set_concat_map: "y \<in> set (concat (map g xs)) \<longleftrightarrow> (\<exists>x \<in> set xs. y \<in> set (g x))"
  by (induction xs) auto

lemma set_rglob_Dir:
  "(p, n) \<in> set (rglob (Dir es)) \<longleftrightarrow>
   (\<exists>m. p = [m] \<and> (m, n) \<in> set es) \<or>
   (\<exists>m ds p'. (m, Dir ds) \<in> set es \<and> p = m # p' \<and> (p', n) \<in> set (rglob (Dir ds)))"
proof -
  let ?g = "\<lambda>(n, t). case t of File c \<Rightarrow> []
                            | Dir ds \<Rightarrow> map (\<lambda>(p, u). (n # p, u)) (rglob t)"
  have A: "(p, n) \<in> set (map (\<lambda>(n, t). ([n], t)) es) \<longleftrightarrow> (\<exists>m. p = [m] \<and> (m, n) \<in> set es)"
    by (force simp del: rglob.simps)
  have G: "(p, n) \<in> set (?g (m, t)) \<longleftrightarrow>
           (\<exists>ds p'. t = Dir ds \<and> p = m # p' \<and> (p', n) \<in> set (rglob (Dir ds)))" for m t
    by (cases t) (force simp del: rglob.simps)+
  have B: "(p, n) \<in> set (concat (map ?g es)) \<longleftrightarrow>
           (\<exists>m ds p'. (m, Dir ds) \<in> set es \<and> p = m # p' \<and> (p', n) \<in> set (rglob (Dir ds)))"
  proof
    assume "(p, n) \<in> set (concat (map ?g es))"
    then obtain x where x: "x \<in> set es" and gx: "(p, n) \<in> set (?g x)"
      unfolding in_set_concat_map by blast
    obtain m t where mt: "x = (m, t)" by (cases x)
    from gx have "(p, n) \<in> set (?g (m, t))" unfolding mt .
    with G [of m t] x mt show "\<exists>m ds p'. (m, Dir ds) \<in> set es \<and> p = m # p' \<and>
        (p', n) \<in> set (rglob (Dir ds))"
      by blast
  next
    assume "\<exists>m ds p'. (m, Dir ds) \<in> set es \<and> p = m # p' \<and> (p', n) \<in> set (rglob (Dir ds))"
    then obtain m ds p' where mem: "(m, Dir ds) \<in> set es" and "p = m # p'"
      and "(p', n) \<in> set (rglob (Dir ds))" by blast
    then have "(p, n) \<in> set (?g (m, Dir ds))" using G [of m "Dir ds"] by blast
    with mem have "\<exists>x \<in> set es. (p, n) \<in> set (?g x)" by blast
    then show "(p, n) \<in> set (concat (map ?g es))"
      unfolding in_set_concat_map .
  qed
  have "set (rglob (Dir es)) = set (map (\<lambda>(n, t). ([n], t)) es) \<union> set (concat (map ?g es))"
    by (subst rglob.simps) (simp del: rglob.simps)
  with A B show ?thesis by blast
qed

lemma rglob_paths_nonempty: "(p, n) \<in> set (rglob t) \<Longrightarrow> p \<noteq> []"
proof (cases t)
  case (File c)
  assume "(p, n) \<in> set (rglob t)"
  with File show ?thesis by (simp add: rglob.simps(1))
next
  case (Dir es)
  assume "(p, n) \<in> set (rglob t)"
  with Dir set_rglob_Dir [of p n es] show ?thesis by auto
qed


subsection \<open>The loop that copies the template files\<close>

lemma copy_files_Dir [simp]:
  "copy_files e config out ((p, Dir ds) # rest) copied w = copy_files e config out rest copied w"
  by simp





subsection \<open>Copying the template of a framework\<close>











subsection \<open>One pass, and the positions of the values\<close>









end
